theory Spec2Isabelle
  imports Complex_Main
begin

section \<open>JavaScript values used by the client builder\<close>

text \<open>
  The development embeds \<^verbatim>\<open>src/builder/client.ts\<close>: the route decoder
  \<^verbatim>\<open>decodeRoute\<close>, the object helpers \<^verbatim>\<open>mergeObjects\<close>,
  \<^verbatim>\<open>createRequest\<close> (with its \<^verbatim>\<open>merge\<close> method) and
  \<^verbatim>\<open>createResult\<close>, and the body of the asynchronous function that
  \<^verbatim>\<open>createClient\<close> binds to every route.

  Exceptions are values: a function that can throw returns a sum, \<open>Inl\<close> the thrown
  value. Values thrown by collaborators (hooks, encoders, decoders, the platform) have the
  type \<open>'e\<close>.  The opaque payload of an object-like body has type \<open>'o\<close>, decoded
  response data has type \<open>'d\<close>.
\<close>

type_synonym header_map = "string \<rightharpoonup> string"

text \<open>
  A JavaScript number: a finite value, one of the two infinities, or \<^verbatim>\<open>NaN\<close>.
  The finite values are rationals; every finite double is one, and both zeros are
  \<open>Finite 0\<close>.
\<close>

datatype js_number = Finite rat | PosInfinity | NegInfinity | NaN

text \<open>Truthiness of a number: zero and \<^verbatim>\<open>NaN\<close> are falsy.\<close>

fun number_truthy :: "js_number \<Rightarrow> bool" where
  "number_truthy (Finite q) = (q \<noteq> 0)"
| "number_truthy PosInfinity = True"
| "number_truthy NegInfinity = True"
| "number_truthy NaN = False"

text \<open>
  \<^verbatim>\<open>body: any\<close>.  The constructors are the kinds of value the code tells apart
  (by truthiness, \<^verbatim>\<open>typeof body === "string"\<close> and the four
  \<^verbatim>\<open>instanceof\<close> tests).  \<open>BufferView\<close> is a binary buffer that is not an
  \<^verbatim>\<open>ArrayBuffer\<close>: a typed array such as \<^verbatim>\<open>Uint8Array\<close>, a
  \<^verbatim>\<open>DataView\<close>, a Node \<^verbatim>\<open>Buffer\<close>, a \<^verbatim>\<open>Blob\<close>; none of the
  tests of the code holds for it.  \<open>Object\<close> stands for every other object (plain
  objects, arrays).
\<close>

datatype 'o body =
    Undefined
  | Null
  | Boolean bool
  | Number js_number
  | Text string
  | ReadableStream 'o
  | FormData 'o
  | ArrayBuffer 'o
  | URLSearchParams 'o
  | BufferView 'o
  | Object 'o

text \<open>JavaScript truthiness, as the conditional \<^verbatim>\<open>body ? ... : undefined\<close> reads it.\<close>

fun truthy :: "'o body \<Rightarrow> bool" where
  "truthy Undefined = False"
| "truthy Null = False"
| "truthy (Boolean b) = b"
| "truthy (Number n) = number_truthy n"
| "truthy (Text s) = (s \<noteq> [])"
| "truthy (ReadableStream x) = True"
| "truthy (FormData x) = True"
| "truthy (ArrayBuffer x) = True"
| "truthy (URLSearchParams x) = True"
| "truthy (BufferView x) = True"
| "truthy (Object x) = True"

text \<open>
  The disjunction of lines 94 to 98: \<^verbatim>\<open>typeof body === "string" || body instanceof
  ReadableStream || body instanceof FormData || body instanceof ArrayBuffer || body instanceof
  URLSearchParams\<close>.
\<close>

fun passthrough :: "'o body \<Rightarrow> bool" where
  "passthrough (Text s) = True"
| "passthrough (ReadableStream x) = True"
| "passthrough (FormData x) = True"
| "passthrough (ArrayBuffer x) = True"
| "passthrough (URLSearchParams x) = True"
| "passthrough b = False"

text \<open>The binary buffers that none of these tests recognises.\<close>

fun bufferView :: "'o body \<Rightarrow> bool" where
  "bufferView (BufferView x) = True"
| "bufferView b = False"

text \<open>
  Encoders and decoders are compared by reference (\<^verbatim>\<open>encoder === JSON.stringify\<close>,
  \<^verbatim>\<open>decoder === JSON.parse\<close>), so the built-in function is a constructor of its own:
  a custom function that happens to compute the same results is still a different encoder.
\<close>

datatype ('e, 'o) encoder = JSON_stringify | Encoder "'o body \<Rightarrow> 'e + string"

datatype ('e, 'd) decoder = JSON_parse | Decoder "string \<Rightarrow> 'e + 'd"

text \<open>Query parameter values: \<^verbatim>\<open>string | number | boolean\<close>.\<close>

datatype qvalue = QString string | QNumber js_number | QBoolean bool

text \<open>
  \<^verbatim>\<open>value.toString()\<close> of a query parameter value; how a number prints is the
  platform's \<^verbatim>\<open>Number.prototype.toString\<close>, the first argument.
\<close>

fun toString :: "(js_number \<Rightarrow> string) \<Rightarrow> qvalue \<Rightarrow> string" where
  "toString num (QString s) = s"
| "toString num (QNumber n) = num n"
| "toString num (QBoolean b) = (if b then ''true'' else ''false'')"

text \<open>
  An abort signal is either one the caller made (identified by a number) or one that
  triggers by itself after a number of milliseconds, as \<^verbatim>\<open>AbortSignal.timeout\<close>
  makes them.
\<close>

datatype abort_signal = Signal nat | TimeoutSignal nat

text \<open>
  What a call can reject with.  \<open>Error msg\<close> is \<^verbatim>\<open>new Error(msg)\<close>, thrown by
  \<^verbatim>\<open>decodeRoute\<close>; \<open>Thrown e\<close> is a value \<open>e\<close> thrown by a collaborator and
  passed on as it is.  \<open>DecodeError e\<close> is the wrapper the error taxonomy of the
  specification names for a failed parse; no statement of the source constructs it.
\<close>

datatype 'e failure = Error string | Thrown 'e | DecodeError 'e

section \<open>Requests, results and hooks\<close>

text \<open>
  Hooks are objects holding closures over requests, and a request holds hooks.  Requests
  therefore refer to hooks by reference (\<open>hook_ref\<close>), and a hook store maps every
  reference to the hook it denotes.
\<close>

type_synonym hook_ref = nat

text \<open>
  The fields of a \<^verbatim>\<open>Request\<close>.  A field the code reads with \<^verbatim>\<open>??\<close>,
  \<^verbatim>\<open>?.\<close> or a truthiness test is optional, \<open>None\<close> being
  \<^verbatim>\<open>undefined\<close>.  \<open>path\<close> is optional because \<^verbatim>\<open>decodeRoute\<close> can
  return an undefined path.  \<open>route\<close> is the extra property that the spread
  \<^verbatim>\<open>...result\<close> of a structured descriptor copies into the request.
  \<open>method_name\<close> is the field \<^verbatim>\<open>method\<close>.  \<open>queryParameters\<close> is
  the list of entries in the order \<^verbatim>\<open>Object.entries\<close> yields them.  The type
  \<open>'h\<close> is how a headers object is held: by value (\<open>header_map\<close>) in a request
  value, by address in the heap of section \<open>merge on a heap\<close>.
\<close>

record ('h, 'e, 'o, 'd) request =
  method_name :: "string option"
  path :: "string option"
  baseUrl :: string
  headers :: "'h option"
  queryParameters :: "(string \<times> qvalue) list option"
  body :: "'o body"
  encoder :: "('e, 'o) encoder option"
  decoder :: "('e, 'd) decoder option"
  timeout :: "js_number option"
  abortSignal :: "abort_signal option"
  hooks :: "hook_ref list option"
  route :: "string option"

text \<open>
  \<^verbatim>\<open>Partial<Request>\<close>: every key may be absent (\<open>None\<close>); a key that is present
  holds a value of the field's type, which for an optional field may be
  \<^verbatim>\<open>undefined\<close> (\<open>Some None\<close>).  The method properties of a request
  (\<^verbatim>\<open>merge\<close>, the setters) are not data and are not part of the record.
\<close>

record ('h, 'e, 'o, 'd) partial_request =
  p_method :: "string option option"
  p_path :: "string option option"
  p_baseUrl :: "string option"
  p_headers :: "'h option option"
  p_queryParameters :: "(string \<times> qvalue) list option option"
  p_body :: "'o body option"
  p_encoder :: "('e, 'o) encoder option option"
  p_decoder :: "('e, 'd) decoder option option"
  p_timeout :: "js_number option option"
  p_abortSignal :: "abort_signal option option"
  p_hooks :: "hook_ref list option option"
  p_route :: "string option option"

record 'd result =
  res_headers :: header_map
  statusCode :: nat
  data :: 'd

record ('e, 'o, 'd) hook =
  beforeRequest ::
    "((header_map, 'e, 'o, 'd) request \<Rightarrow> 'e + (header_map, 'e, 'o, 'd) request) option"
  afterRequest ::
    "((header_map, 'e, 'o, 'd) request \<Rightarrow> 'd result \<Rightarrow> 'e + 'd result) option"

type_synonym ('e, 'o, 'd) hook_store = "hook_ref \<Rightarrow> ('e, 'o, 'd) hook"

section \<open>Route decoding\<close>

text \<open>
  \<^verbatim>\<open>String.prototype.split(sep)\<close> for a one-character separator: the pieces between
  the occurrences of the separator, an empty string giving one empty piece.
\<close>

fun split_on :: "char \<Rightarrow> string \<Rightarrow> string list" where
  "split_on c [] = [[]]"
| "split_on c (x # xs) =
     (if x = c then [] # split_on c xs
      else (case split_on c xs of
              [] \<Rightarrow> [[x]]
            | t # ts \<Rightarrow> (x # t) # ts))"

text \<open>
  \<^verbatim>\<open>route.split(" ", 2)\<close>: the limit keeps the first two pieces and drops the rest.
\<close>

definition split_limit :: "char \<Rightarrow> nat \<Rightarrow> string \<Rightarrow> string list" where
  "split_limit c n s = take n (split_on c s)"

text \<open>
  \<^verbatim>\<open>toUpperCase\<close> on strings of ASCII characters: the letters a to z are mapped to
  A to Z and every other character is kept.  A character is a byte here, and on a string
  with a character outside ASCII the built-in function applies the Unicode mappings
  (the long s, U+017F, becomes S), which this function does not.
\<close>

definition toUpperCase :: "string \<Rightarrow> string" where
  "toUpperCase s =
     map (\<lambda>c. case map_of (zip ''abcdefghijklmnopqrstuvwxyz'' ''ABCDEFGHIJKLMNOPQRSTUVWXYZ'') c of
                None \<Rightarrow> c
              | Some u \<Rightarrow> u) s"

definition http_methods :: "string list" where
  "http_methods = [''GET'', ''POST'', ''PUT'', ''DELETE'', ''PATCH'']"

text \<open>
  Lines 136 to 150.  The result is the pair of the method and the path; the path is
  \<open>None\<close> when the destructuring \<^verbatim>\<open>[_method, path] = tokens\<close> finds one token only.
  An empty token list cannot arise (\<open>split_on\<close> never returns one); there the source
  would fail on \<^verbatim>\<open>_method.toUpperCase()\<close>.
\<close>

definition decodeRoute :: "string option \<Rightarrow> string \<Rightarrow> 'e failure + (string \<times> string option)" where
  "decodeRoute method_arg route_arg =
     (let tokens = split_limit CHR '' '' 2 route_arg in
      if length tokens = 1 \<and> method_arg = None
      then Inr (case method_arg of None \<Rightarrow> ''GET'' | Some m \<Rightarrow> m, Some route_arg)
      else (case tokens of
              [] \<Rightarrow> Inl (Error ''TypeError'')
            | m0 # rest \<Rightarrow>
                (let m = toUpperCase m0;
                     p = (case rest of [] \<Rightarrow> None | p0 # _ \<Rightarrow> Some p0)
                 in if m \<notin> set http_methods
                    then Inl (Error (''Invalid HTTP method: '' @ m @ '' at route: '' @ route_arg))
                    else Inr (m, p))))"

section \<open>Object helpers\<close>

text \<open>The operator \<^verbatim>\<open>a ?? b\<close>, for a defined and for an optional right operand.\<close>

definition orElse :: "'a option \<Rightarrow> 'a \<Rightarrow> 'a" where
  "orElse a b = (case a of None \<Rightarrow> b | Some x \<Rightarrow> x)"

definition orUndefined :: "'a option \<Rightarrow> 'a option \<Rightarrow> 'a option" where
  "orUndefined a b = (case a of None \<Rightarrow> b | Some x \<Rightarrow> Some x)"

text \<open>
  Lines 152 to 157, \<^verbatim>\<open>{...a, ...b}\<close>, at the three types it is called at.
  On header mappings the keys of \<open>b\<close> win; spreading \<^verbatim>\<open>undefined\<close> adds nothing.
\<close>

definition mergeObjects :: "header_map option \<Rightarrow> header_map option \<Rightarrow> header_map" where
  "mergeObjects a b = orElse a Map.empty ++ orElse b Map.empty"

text \<open>
  On hook arrays the spread copies the index keys, so an entry of \<open>b\<close> replaces the entry
  of \<open>a\<close> at the same index and the entries of \<open>a\<close> beyond the length of \<open>b\<close> stay.
  (The value is a plain object with these entries, not an array; the list keeps its
  entries in index order.)
\<close>

definition mergeObjects_hooks :: "hook_ref list option \<Rightarrow> hook_ref list \<Rightarrow> hook_ref list" where
  "mergeObjects_hooks a b = b @ drop (length b) (orElse a [])"

text \<open>On a request and a partial request every key present in the partial wins.\<close>

definition mergeObjects_request ::
  "('h, 'e, 'o, 'd) request \<Rightarrow> ('h, 'e, 'o, 'd) partial_request \<Rightarrow> ('h, 'e, 'o, 'd) request" where
  "mergeObjects_request a b =
     \<lparr> method_name = orElse (p_method b) (method_name a),
       path = orElse (p_path b) (path a),
       baseUrl = orElse (p_baseUrl b) (baseUrl a),
       headers = orElse (p_headers b) (headers a),
       queryParameters = orElse (p_queryParameters b) (queryParameters a),
       body = orElse (p_body b) (body a),
       encoder = orElse (p_encoder b) (encoder a),
       decoder = orElse (p_decoder b) (decoder a),
       timeout = orElse (p_timeout b) (timeout a),
       abortSignal = orElse (p_abortSignal b) (abortSignal a),
       hooks = orElse (p_hooks b) (hooks a),
       route = orElse (p_route b) (route a) \<rparr>"

text \<open>
  Lines 159 to 209: \<^verbatim>\<open>createRequest\<close> copies the data fields of its argument and
  adds the methods, which here are functions of the theory.
\<close>

definition createRequest :: "('h, 'e, 'o, 'd) request \<Rightarrow> ('h, 'e, 'o, 'd) request" where
  "createRequest base = base"

text \<open>
  Lines 198 to 207, on request values.  \<^verbatim>\<open>if (request.headers)\<close> and
  \<^verbatim>\<open>if (request.hooks)\<close> hold exactly when the key is present with an object.
\<close>

definition merge ::
  "(header_map, 'e, 'o, 'd) request \<Rightarrow> (header_map, 'e, 'o, 'd) partial_request
     \<Rightarrow> (header_map, 'e, 'o, 'd) request" where
  "merge this request =
     (let newRequest = mergeObjects_request this request;
          newRequest1 =
            (case p_headers request of
               Some (Some h) \<Rightarrow> newRequest\<lparr>headers := Some (mergeObjects (headers this) (Some h))\<rparr>
             | _ \<Rightarrow> newRequest);
          newRequest2 =
            (case p_hooks request of
               Some (Some hs) \<Rightarrow> newRequest1\<lparr>hooks := Some (mergeObjects_hooks (hooks this) hs)\<rparr>
             | _ \<Rightarrow> newRequest1)
      in newRequest2)"

text \<open>The partial request with no key.\<close>

definition no_fields :: "('h, 'e, 'o, 'd) partial_request" where
  "no_fields =
     \<lparr> p_method = None, p_path = None, p_baseUrl = None, p_headers = None,
       p_queryParameters = None, p_body = None, p_encoder = None, p_decoder = None,
       p_timeout = None, p_abortSignal = None, p_hooks = None, p_route = None \<rparr>"

text \<open>Lines 211 to 222, the data fields of a result.\<close>

definition createResult :: "'d result \<Rightarrow> 'd result" where
  "createResult base = base"

section \<open>Configuration layers\<close>

text \<open>\<^verbatim>\<open>ClientBuilderOptions\<close>, as lines 7 to 11 read it.\<close>

record client_options =
  o_hooks :: "hook_ref list option"
  o_headers :: "header_map option"
  o_timeout :: "js_number option"

text \<open>A resource of the configuration, as lines 14 to 18 and line 69 read it.\<close>

record resource_config =
  prefix :: "string option"
  rc_hooks :: "hook_ref list option"
  rc_headers :: "header_map option"
  rc_timeout :: "js_number option"

text \<open>The objects \<^verbatim>\<open>global\<close> (lines 7 to 11) and \<^verbatim>\<open>res\<close> (lines 14 to 18).\<close>

record layer =
  l_hooks :: "hook_ref list"
  l_headers :: header_map
  l_timeout :: "js_number option"

definition global_layer :: "client_options option \<Rightarrow> layer" where
  "global_layer options =
     \<lparr> l_hooks = orElse (case options of None \<Rightarrow> None | Some opt \<Rightarrow> o_hooks opt) [],
       l_headers = orElse (case options of None \<Rightarrow> None | Some opt \<Rightarrow> o_headers opt) Map.empty,
       l_timeout = (case options of None \<Rightarrow> None | Some opt \<Rightarrow> o_timeout opt) \<rparr>"

definition resource_layer :: "resource_config \<Rightarrow> layer" where
  "resource_layer resource =
     \<lparr> l_hooks = orElse (rc_hooks resource) [],
       l_headers = orElse (rc_headers resource) Map.empty,
       l_timeout = rc_timeout resource \<rparr>"

text \<open>Lines 20 to 23.\<close>

definition resourceStandardHeaders :: "layer \<Rightarrow> layer \<Rightarrow> header_map" where
  "resourceStandardHeaders global res = l_headers global ++ l_headers res"

text \<open>
  Modelled from the spec: the type \<^verbatim>\<open>PureRoute\<close> of \<^verbatim>\<open>types/builder\<close>,
  which is not among the source files.  Section 3 of the specification gives the
  structured route descriptor the fields
  \<^verbatim>\<open>{method?, route, headers?, timeout?, body?, queryParameters?, hooks?}\<close>.
\<close>

record 'o pure_route =
  d_method :: "string option"
  d_route :: string
  d_headers :: "header_map option"
  d_timeout :: "js_number option"
  d_body :: "'o body"
  d_queryParameters :: "(string \<times> qvalue) list option"
  d_hooks :: "hook_ref list option"

text \<open>
  What the constructor of a route returns (line 26):
  \<^verbatim>\<open>typeof result === "string"\<close> tells the two forms apart.
\<close>

datatype 'o route_result = StringRoute string | StructuredRoute "'o pure_route"

text \<open>Lines 29 to 49: decoding the route and building the request of the call.\<close>

definition initialRequest ::
  "string \<Rightarrow> layer \<Rightarrow> layer \<Rightarrow> 'o route_result
     \<Rightarrow> 'e failure + (header_map, 'e, 'o, 'd) request" where
  "initialRequest base global res result =
     (case result of
        StringRoute s \<Rightarrow>
          (case decodeRoute None s of
             Inl err \<Rightarrow> Inl err
           | Inr (m, p) \<Rightarrow>
               Inr (createRequest
                 \<lparr> method_name = Some m,
                   path = p,
                   baseUrl = base,
                   headers = Some (resourceStandardHeaders global res),
                   queryParameters = Some [],
                   body = Undefined,
                   encoder = Some JSON_stringify,
                   decoder = Some JSON_parse,
                   timeout = orUndefined (l_timeout res) (l_timeout global),
                   abortSignal = None,
                   hooks = None,
                   route = None \<rparr>))
      | StructuredRoute d \<Rightarrow>
          (case decodeRoute (d_method d) (d_route d) of
             Inl err \<Rightarrow> Inl err
           | Inr (m, p) \<Rightarrow>
               Inr (createRequest
                 \<lparr> method_name = Some (orElse (d_method d) m),
                   path = p,
                   baseUrl = base,
                   headers = Some (resourceStandardHeaders global res ++ orElse (d_headers d) Map.empty),
                   queryParameters = d_queryParameters d,
                   body = d_body d,
                   encoder = None,
                   decoder = None,
                   timeout = orUndefined (d_timeout d) (orUndefined (l_timeout res) (l_timeout global)),
                   abortSignal = None,
                   hooks = d_hooks d,
                   route = Some (d_route d) \<rparr>)))"

section \<open>The hook pipeline\<close>

text \<open>
  Lines 55 to 59: the loop over the hook list of the call.  A hook without a
  \<^verbatim>\<open>beforeRequest\<close> is skipped; a hook that throws ends the call.
\<close>

fun runBeforeRequest ::
  "('e, 'o, 'd) hook_store \<Rightarrow> hook_ref list \<Rightarrow> (header_map, 'e, 'o, 'd) request
     \<Rightarrow> 'e failure + (header_map, 'e, 'o, 'd) request" where
  "runBeforeRequest store [] request = Inr request"
| "runBeforeRequest store (h # hs) request =
     (case beforeRequest (store h) of
        None \<Rightarrow> runBeforeRequest store hs request
      | Some f \<Rightarrow>
          (case f request of
             Inl e \<Rightarrow> Inl (Thrown e)
           | Inr request' \<Rightarrow> runBeforeRequest store hs request'))"

text \<open>
  Lines 120 to 127: the loop over the same list after the response is decoded; every
  hook is given the request of the call and the working result.
\<close>

fun runAfterRequest ::
  "('e, 'o, 'd) hook_store \<Rightarrow> hook_ref list \<Rightarrow> (header_map, 'e, 'o, 'd) request
     \<Rightarrow> 'd result \<Rightarrow> 'e failure + 'd result" where
  "runAfterRequest store [] request res = Inr res"
| "runAfterRequest store (h # hs) request res =
     (case afterRequest (store h) of
        None \<Rightarrow> runAfterRequest store hs request res
      | Some f \<Rightarrow>
          (case f request res of
             Inl e \<Rightarrow> Inl (Thrown e)
           | Inr res' \<Rightarrow> runAfterRequest store hs request res'))"

section \<open>The transport boundary\<close>

text \<open>
  The URL the transport is given: \<open>href\<close> is what the platform's \<^verbatim>\<open>URL\<close> class
  makes of the string passed to \<^verbatim>\<open>new URL\<close>, \<open>searchParams\<close> the pairs appended
  by \<^verbatim>\<open>url.searchParams.append\<close>, in order.
\<close>

record url =
  href :: string
  searchParams :: "(string \<times> string) list"

text \<open>The arguments of \<^verbatim>\<open>fetch\<close> (lines 90 to 104).\<close>

record 'o fetch_call =
  f_url :: url
  f_method :: string
  f_body :: "'o body"
  f_headers :: "header_map option"
  f_signal :: "abort_signal option"

text \<open>
  The response of the transport: \<open>resp_text\<close> is the outcome of reading its body
  (\<^verbatim>\<open>res.text()\<close>, and the first half of \<^verbatim>\<open>res.json()\<close>).
\<close>

record 'e response =
  status :: nat
  resp_headers :: header_map
  resp_text :: "'e + string"

text \<open>
  The collaborators the code calls and does not define: \<^verbatim>\<open>JSON.stringify\<close>,
  \<^verbatim>\<open>JSON.parse\<close>, \<^verbatim>\<open>new URL\<close> (which throws on a string it cannot
  parse), \<^verbatim>\<open>Number.prototype.toString\<close>, \<^verbatim>\<open>AbortSignal.timeout\<close> (which
  throws on a number it does not accept as a duration, a negative one for instance) and
  \<^verbatim>\<open>fetch\<close>.
\<close>

record ('e, 'o, 'd) platform =
  stringify :: "'o body \<Rightarrow> 'e + string"
  parse :: "string \<Rightarrow> 'e + 'd"
  new_URL :: "string \<Rightarrow> 'e + string"
  numberToString :: "js_number \<Rightarrow> string"
  abortSignalTimeout :: "js_number \<Rightarrow> 'e + abort_signal"
  fetch :: "'o fetch_call \<Rightarrow> 'e + 'e response"

definition applyEncoder ::
  "('e, 'o, 'd) platform \<Rightarrow> ('e, 'o) encoder \<Rightarrow> 'o body \<Rightarrow> 'e + string" where
  "applyEncoder plat enc b = (case enc of JSON_stringify \<Rightarrow> stringify plat b | Encoder f \<Rightarrow> f b)"

text \<open>
  Lines 108 to 110: \<^verbatim>\<open>decoder === JSON.parse ? await res.json() : await
  res.text().then(decoder)\<close>.
\<close>

definition decodeText ::
  "('e, 'o, 'd) platform \<Rightarrow> ('e, 'd) decoder \<Rightarrow> string \<Rightarrow> 'e + 'd" where
  "decodeText plat dec s = (case dec of JSON_parse \<Rightarrow> parse plat s | Decoder f \<Rightarrow> f s)"

definition applyDecoder ::
  "('e, 'o, 'd) platform \<Rightarrow> ('e, 'd) decoder \<Rightarrow> 'e response \<Rightarrow> 'e + 'd" where
  "applyDecoder plat dec resp =
     (case resp_text resp of
        Inl e \<Rightarrow> Inl e
      | Inr s \<Rightarrow> decodeText plat dec s)"

text \<open>Lines 68 to 72; appending an undefined path appends the text \<^verbatim>\<open>undefined\<close>.\<close>

definition fullPath :: "resource_config \<Rightarrow> (header_map, 'e, 'o, 'd) request \<Rightarrow> string" where
  "fullPath resource request =
     baseUrl request
       @ (case prefix resource of None \<Rightarrow> [] | Some p \<Rightarrow> if p \<noteq> [] then p else [])
       @ (case path request of None \<Rightarrow> ''undefined'' | Some p \<Rightarrow> p)"

text \<open>Lines 81 to 88: the request after the automatic Content-Type step.\<close>

definition autoContentType ::
  "(header_map, 'e, 'o, 'd) request \<Rightarrow> (header_map, 'e, 'o, 'd) request" where
  "autoContentType request =
     (if orElse (encoder request) JSON_stringify = JSON_stringify
         \<and> (case headers request of None \<Rightarrow> None | Some h \<Rightarrow> h ''Content-Type'') = None
      then merge request (no_fields\<lparr>p_headers := Some (Some [''Content-Type'' \<mapsto> ''application/json''])\<rparr>)
      else request)"

text \<open>Lines 92 to 99: the body handed to the transport.\<close>

definition sentBody ::
  "('e, 'o, 'd) platform \<Rightarrow> ('e, 'o) encoder \<Rightarrow> 'o body \<Rightarrow> 'e failure + 'o body" where
  "sentBody plat enc b =
     (if truthy b
      then (if passthrough b then Inr b
            else (case applyEncoder plat enc b of Inl e \<Rightarrow> Inl (Thrown e) | Inr s \<Rightarrow> Inr (Text s)))
      else Inr Undefined)"

text \<open>
  Lines 101 to 103: the signal handed to the transport.  The timeout is tested for
  truthiness; \<^verbatim>\<open>AbortSignal.timeout\<close> is called for a truthy one only, and what it
  throws ends the call.
\<close>

definition sentSignal ::
  "('e, 'o, 'd) platform \<Rightarrow> (header_map, 'e, 'o, 'd) request
     \<Rightarrow> 'e failure + abort_signal option" where
  "sentSignal plat request =
     (case abortSignal request of
        Some sg \<Rightarrow> Inr (Some sg)
      | None \<Rightarrow>
          (case timeout request of
             None \<Rightarrow> Inr None
           | Some t \<Rightarrow>
               if number_truthy t
               then (case abortSignalTimeout plat t of
                       Inl e \<Rightarrow> Inl (Thrown e)
                     | Inr sg \<Rightarrow> Inr (Some sg))
               else Inr None))"

text \<open>
  Lines 61 to 104, for the request the before-request hooks left: the locals
  \<^verbatim>\<open>method\<close>, \<^verbatim>\<open>body\<close>, \<^verbatim>\<open>headers\<close> and \<^verbatim>\<open>encoder\<close> are read
  first, then the URL is made, then the request variable is reassigned by the automatic
  Content-Type step, then the arguments of \<^verbatim>\<open>fetch\<close> are evaluated in the order
  they are written, the body before the signal.  The result is the reassigned request
  and the arguments of \<^verbatim>\<open>fetch\<close>.
\<close>

definition transportCall ::
  "('e, 'o, 'd) platform \<Rightarrow> resource_config \<Rightarrow> (header_map, 'e, 'o, 'd) request
     \<Rightarrow> 'e failure + ((header_map, 'e, 'o, 'd) request \<times> 'o fetch_call)" where
  "transportCall plat resource request =
     (let method_l = orElse (method_name request) ''GET'';
          body_l = body request;
          headers_l = headers request;
          encoder_l = orElse (encoder request) JSON_stringify
      in case new_URL plat (fullPath resource request) of
           Inl e \<Rightarrow> Inl (Thrown e)
         | Inr h \<Rightarrow>
             (let u = \<lparr> href = h,
                        searchParams =
                          (case queryParameters request of
                             None \<Rightarrow> []
                           | Some qs \<Rightarrow>
                               map (\<lambda>(k, v). (k, toString (numberToString plat) v)) qs) \<rparr>;
                  request' = autoContentType request
              in case sentBody plat encoder_l body_l of
                   Inl err \<Rightarrow> Inl err
                 | Inr b \<Rightarrow>
                     (case sentSignal plat request' of
                        Inl err \<Rightarrow> Inl err
                      | Inr sg \<Rightarrow>
                          Inr (request',
                               \<lparr> f_url = u,
                                 f_method = method_l,
                                 f_body = b,
                                 f_headers = headers_l,
                                 f_signal = sg \<rparr>))))"

section \<open>A call of a route\<close>

text \<open>Line 54: the hook list of a call.\<close>

definition callHooks ::
  "layer \<Rightarrow> layer \<Rightarrow> (header_map, 'e, 'o, 'd) request \<Rightarrow> hook_ref list" where
  "callHooks global res request = l_hooks global @ l_hooks res @ orElse (hooks request) []"

text \<open>
  Lines 26 to 104, up to the arguments of \<^verbatim>\<open>fetch\<close>: the hook list of the call, the
  request after the before-request hooks, the request after the Content-Type step, and the
  arguments the transport is invoked with.
\<close>

definition prepareCall ::
  "('e, 'o, 'd) platform \<Rightarrow> ('e, 'o, 'd) hook_store \<Rightarrow> string \<Rightarrow> client_options option
     \<Rightarrow> resource_config \<Rightarrow> 'o route_result
     \<Rightarrow> 'e failure
          + (hook_ref list \<times> (header_map, 'e, 'o, 'd) request
               \<times> (header_map, 'e, 'o, 'd) request \<times> 'o fetch_call)" where
  "prepareCall plat store base options resource result =
     (let global = global_layer options;
          res = resource_layer resource
      in case initialRequest base global res result of
           Inl err \<Rightarrow> Inl err
         | Inr request0 \<Rightarrow>
             (let hs = callHooks global res request0
              in case runBeforeRequest store hs request0 of
                   Inl err \<Rightarrow> Inl err
                 | Inr request1 \<Rightarrow>
                     (case transportCall plat resource request1 of
                        Inl err \<Rightarrow> Inl err
                      | Inr (request2, fc) \<Rightarrow> Inr (hs, request1, request2, fc))))"

text \<open>
  Lines 105 to 127, for a response of the transport: decoding with the decoder read at
  line 66, wrapping the result, and the after-request hooks.  The
  \<^verbatim>\<open>catch (e) { throw e }\<close> of lines 111 to 113 rethrows what it caught.
\<close>

definition handleResponse ::
  "('e, 'o, 'd) platform \<Rightarrow> ('e, 'o, 'd) hook_store \<Rightarrow> hook_ref list
     \<Rightarrow> (header_map, 'e, 'o, 'd) request \<Rightarrow> (header_map, 'e, 'o, 'd) request
     \<Rightarrow> 'e response \<Rightarrow> 'e failure + 'd result" where
  "handleResponse plat store hs request1 request2 resp =
     (case applyDecoder plat (orElse (decoder request1) JSON_parse) resp of
        Inl e \<Rightarrow> Inl (Thrown e)
      | Inr v \<Rightarrow>
          runAfterRequest store hs request2
            (createResult \<lparr> res_headers = resp_headers resp, statusCode = status resp, data = v \<rparr>))"

text \<open>The function bound to a route (lines 25 to 128), given what the route's constructor returned.\<close>

definition call ::
  "('e, 'o, 'd) platform \<Rightarrow> ('e, 'o, 'd) hook_store \<Rightarrow> string \<Rightarrow> client_options option
     \<Rightarrow> resource_config \<Rightarrow> 'o route_result \<Rightarrow> 'e failure + 'd result" where
  "call plat store base options resource result =
     (case prepareCall plat store base options resource result of
        Inl err \<Rightarrow> Inl err
      | Inr (hs, request1, request2, fc) \<Rightarrow>
          (case fetch plat fc of
             Inl e \<Rightarrow> Inl (Thrown e)
           | Inr resp \<Rightarrow> handleResponse plat store hs request1 request2 resp))"

section \<open>merge on a heap\<close>

text \<open>
  Whether \<^verbatim>\<open>merge\<close> leaves its receiver alone is a question about objects, not
  values.  Here request objects and headers objects live in a heap: an address is an index
  into the list of allocated objects, an object literal allocates at the end of the list,
  and an assignment to a property replaces the object at an address.  A request object
  holds its headers by address; its other fields are held by value.
\<close>

type_synonym addr = nat

datatype ('e, 'o, 'd) obj =
    HeadersObj header_map
  | RequestObj "(addr, 'e, 'o, 'd) request"

type_synonym ('e, 'o, 'd) heap = "('e, 'o, 'd) obj list"

definition lookup :: "('e, 'o, 'd) heap \<Rightarrow> addr \<Rightarrow> ('e, 'o, 'd) obj option" where
  "lookup hp a = (if a < length hp then Some (hp ! a) else None)"

definition alloc :: "('e, 'o, 'd) heap \<Rightarrow> ('e, 'o, 'd) obj \<Rightarrow> ('e, 'o, 'd) heap \<times> addr" where
  "alloc hp ob = (hp @ [ob], length hp)"

text \<open>\<^verbatim>\<open>o.f = v\<close> for the request object at an address.\<close>

definition assignField ::
  "('e, 'o, 'd) heap \<Rightarrow> addr \<Rightarrow> ((addr, 'e, 'o, 'd) request \<Rightarrow> (addr, 'e, 'o, 'd) request)
     \<Rightarrow> ('e, 'o, 'd) heap" where
  "assignField hp a f =
     (case lookup hp a of
        Some (RequestObj r) \<Rightarrow> hp[a := RequestObj (f r)]
      | _ \<Rightarrow> hp)"

text \<open>The mapping a headers reference denotes; \<open>None\<close> for \<^verbatim>\<open>undefined\<close>.\<close>

definition headersAt :: "('e, 'o, 'd) heap \<Rightarrow> addr option \<Rightarrow> header_map option" where
  "headersAt hp r =
     (case r of
        None \<Rightarrow> None
      | Some a \<Rightarrow> (case lookup hp a of Some (HeadersObj m) \<Rightarrow> Some m | _ \<Rightarrow> None))"

text \<open>The request value an address denotes.\<close>

definition requestAt ::
  "('e, 'o, 'd) heap \<Rightarrow> addr \<Rightarrow> (header_map, 'e, 'o, 'd) request option" where
  "requestAt hp a =
     (case lookup hp a of
        Some (RequestObj r) \<Rightarrow>
          Some \<lparr> method_name = method_name r, path = path r, baseUrl = baseUrl r,
                 headers = headersAt hp (headers r),
                 queryParameters = queryParameters r, body = body r,
                 encoder = encoder r, decoder = decoder r, timeout = timeout r,
                 abortSignal = abortSignal r, hooks = hooks r, route = route r \<rparr>
      | _ \<Rightarrow> None)"

text \<open>The partial request value that a partial request with a headers reference denotes.\<close>

definition partialAt ::
  "('e, 'o, 'd) heap \<Rightarrow> (addr, 'e, 'o, 'd) partial_request
     \<Rightarrow> (header_map, 'e, 'o, 'd) partial_request" where
  "partialAt hp p =
     \<lparr> p_method = p_method p, p_path = p_path p, p_baseUrl = p_baseUrl p,
       p_headers = map_option (headersAt hp) (p_headers p),
       p_queryParameters = p_queryParameters p, p_body = p_body p,
       p_encoder = p_encoder p, p_decoder = p_decoder p, p_timeout = p_timeout p,
       p_abortSignal = p_abortSignal p, p_hooks = p_hooks p, p_route = p_route p \<rparr>"

text \<open>A headers reference of a partial request, when it has one, is a headers object.\<close>

definition partial_ok :: "('e, 'o, 'd) heap \<Rightarrow> (addr, 'e, 'o, 'd) partial_request \<Rightarrow> bool" where
  "partial_ok hp p =
     (case p_headers p of
        Some (Some a) \<Rightarrow> (case lookup hp a of Some (HeadersObj m) \<Rightarrow> True | _ \<Rightarrow> False)
      | _ \<Rightarrow> True)"

text \<open>Every headers reference of a request object in the heap is a headers object.\<close>

definition wf_heap :: "('e, 'o, 'd) heap \<Rightarrow> bool" where
  "wf_heap hp =
     list_all
       (\<lambda>ob. case ob of
                HeadersObj m \<Rightarrow> True
              | RequestObj r \<Rightarrow>
                  (case headers r of
                     None \<Rightarrow> True
                   | Some a \<Rightarrow> (case lookup hp a of Some (HeadersObj m) \<Rightarrow> True | _ \<Rightarrow> False)))
       hp"

text \<open>
  Lines 198 to 207 on the heap: \<^verbatim>\<open>mergeObjects(this, request)\<close> allocates the new
  request, \<^verbatim>\<open>mergeObjects(this.headers, request.headers)\<close> allocates a new headers
  object, and the two assignments write to the new request only.  The result is the heap
  after the call and the address returned; \<open>None\<close> when \<open>this\<close> is not a request.
\<close>

definition merge_heap ::
  "('e, 'o, 'd) heap \<Rightarrow> addr \<Rightarrow> (addr, 'e, 'o, 'd) partial_request
     \<Rightarrow> (('e, 'o, 'd) heap \<times> addr) option" where
  "merge_heap hp this request =
     (case lookup hp this of
        Some (RequestObj r) \<Rightarrow>
          (let (hp1, newRequest) = alloc hp (RequestObj (mergeObjects_request r request));
               hp2 =
                 (case p_headers request of
                    Some (Some ph) \<Rightarrow>
                      (let (hp', a) =
                             alloc hp1
                               (HeadersObj (mergeObjects (headersAt hp1 (headers r))
                                                         (headersAt hp1 (Some ph))))
                       in assignField hp' newRequest (\<lambda>n. n\<lparr>headers := Some a\<rparr>))
                  | _ \<Rightarrow> hp1);
               hp3 =
                 (case p_hooks request of
                    Some (Some hs) \<Rightarrow>
                      assignField hp2 newRequest
                        (\<lambda>n. n\<lparr>hooks := Some (mergeObjects_hooks (hooks r) hs)\<rparr>)
                  | _ \<Rightarrow> hp2)
           in Some (hp3, newRequest))
      | _ \<Rightarrow> None)"

section \<open>Reference definitions for the statements\<close>

text \<open>The first value that is present, in the order of the list.\<close>

fun firstPresent :: "'a option list \<Rightarrow> 'a option" where
  "firstPresent [] = None"
| "firstPresent (None # xs) = firstPresent xs"
| "firstPresent (Some x # xs) = Some x"



text \<open>The call reaches the transport and hands it the signal \<open>sg\<close> (or none).\<close>

definition transportGetsSignal ::
  "('e, 'o, 'd) platform \<Rightarrow> ('e, 'o, 'd) hook_store \<Rightarrow> string \<Rightarrow> client_options option
     \<Rightarrow> resource_config \<Rightarrow> 'o route_result \<Rightarrow> abort_signal option \<Rightarrow> bool" where
  "transportGetsSignal plat store base options resource result sg =
     (case prepareCall plat store base options resource result of
        Inl err \<Rightarrow> False
      | Inr (hs, request1, request2, fc) \<Rightarrow> f_signal fc = sg)"

section \<open>Concrete collaborators and inputs\<close>

text \<open>
  A small platform, a hook store and inputs at which the statements below are evaluated.
  Thrown values and decoded data are strings; the payload of an object body is its list
  of string fields.
\<close>

type_synonym ex_obj = "(string \<times> string) list"

fun ex_fields :: "(string \<times> string) list \<Rightarrow> string" where
  "ex_fields [] = []"
| "ex_fields [(k, v)] = [CHR 0x22] @ k @ [CHR 0x22] @ '':'' @ [CHR 0x22] @ v @ [CHR 0x22]"
| "ex_fields ((k, v) # kvs) =
     [CHR 0x22] @ k @ [CHR 0x22] @ '':'' @ [CHR 0x22] @ v @ [CHR 0x22] @ '','' @ ex_fields kvs"

text \<open>Decimal digits of a natural number.\<close>

fun showNat :: "nat \<Rightarrow> string" where
  "showNat n =
     (if n < 10 then [''0123456789'' ! n]
      else showNat (n div 10) @ [''0123456789'' ! (n mod 10)])"

declare showNat.simps [simp del]

text \<open>How the example platform prints a number; it prints the integers only.\<close>

definition ex_numberToString :: "js_number \<Rightarrow> string" where
  "ex_numberToString n =
     (case n of
        Finite q \<Rightarrow>
          (if q = of_int \<lfloor>q\<rfloor>
           then (if q < 0 then CHR ''-'' # showNat (nat (- \<lfloor>q\<rfloor>)) else showNat (nat \<lfloor>q\<rfloor>))
           else ''?'')
      | PosInfinity \<Rightarrow> ''Infinity''
      | NegInfinity \<Rightarrow> ''-Infinity''
      | NaN \<Rightarrow> ''NaN'')"

text \<open>
  \<^verbatim>\<open>AbortSignal.timeout\<close> of the example platform: a finite number that is not
  negative gives the signal for its integer part, every other number a
  \<^verbatim>\<open>TypeError\<close>.
\<close>

definition ex_abortSignalTimeout :: "js_number \<Rightarrow> string + abort_signal" where
  "ex_abortSignalTimeout n =
     (case n of
        Finite q \<Rightarrow> if q < 0 then Inl ''TypeError'' else Inr (TimeoutSignal (nat \<lfloor>q\<rfloor>))
      | _ \<Rightarrow> Inl ''TypeError'')"

text \<open>
  \<^verbatim>\<open>JSON.stringify\<close> of the example platform; a buffer view is printed like an
  object, by its fields.
\<close>

definition ex_stringify :: "ex_obj body \<Rightarrow> string + string" where
  "ex_stringify b =
     (case b of
        Object kvs \<Rightarrow> Inr (''{'' @ ex_fields kvs @ ''}'')
      | BufferView kvs \<Rightarrow> Inr (''{'' @ ex_fields kvs @ ''}'')
      | Number n \<Rightarrow> Inr (ex_numberToString n)
      | Boolean t \<Rightarrow> Inr (if t then ''true'' else ''false'')
      | Null \<Rightarrow> Inr ''null''
      | _ \<Rightarrow> Inl ''TypeError'')"

definition ex_response :: "string \<Rightarrow> string response" where
  "ex_response s = \<lparr> status = 200, resp_headers = Map.empty, resp_text = Inr s \<rparr>"

text \<open>The platform whose transport answers every call with status 200 and the body \<open>s\<close>.\<close>

definition ex_platform :: "string \<Rightarrow> (string, ex_obj, string) platform" where
  "ex_platform s =
     \<lparr> stringify = ex_stringify,
       parse = (\<lambda>t. if t = ''not json'' then Inl ''SyntaxError'' else Inr t),
       new_URL = Inr,
       numberToString = ex_numberToString,
       abortSignalTimeout = ex_abortSignalTimeout,
       fetch = (\<lambda>fc. Inr (ex_response s)) \<rparr>"

definition no_hook :: "(string, ex_obj, string) hook" where
  "no_hook = \<lparr> beforeRequest = None, afterRequest = None \<rparr>"

text \<open>
  A hook that appends its tag to the header \<^verbatim>\<open>X-Trace\<close> before the request and to
  the data after it.
\<close>

definition trace_hook :: "string \<Rightarrow> (string, ex_obj, string) hook" where
  "trace_hook tag =
     \<lparr> beforeRequest =
         Some (\<lambda>rq. Inr (merge rq (no_fields\<lparr>p_headers :=
            Some (Some [''X-Trace'' \<mapsto> orElse (orElse (headers rq) Map.empty ''X-Trace'') [] @ tag])\<rparr>))),
       afterRequest = Some (\<lambda>rq res. Inr (res\<lparr>data := data res @ tag\<rparr>)) \<rparr>"

text \<open>
  Hooks 1, 2 and 3 trace; hook 4 returns a request that carries hook 5; hook 5 would
  change the method and the data; hook 6 sets an abort signal of the caller.
\<close>

definition ex_store :: "(string, ex_obj, string) hook_store" where
  "ex_store h =
     (if h = 1 then trace_hook ''G''
      else if h = 2 then trace_hook ''R''
      else if h = 3 then trace_hook ''Q''
      else if h = 4 then
        \<lparr> beforeRequest = Some (\<lambda>rq. Inr (merge rq (no_fields\<lparr>p_hooks := Some (Some [5])\<rparr>))),
          afterRequest = None \<rparr>
      else if h = 5 then
        \<lparr> beforeRequest = Some (\<lambda>rq. Inr (rq\<lparr>method_name := Some ''DELETE''\<rparr>)),
          afterRequest = Some (\<lambda>rq res. Inr (res\<lparr>data := ''hijacked''\<rparr>)) \<rparr>
      else if h = 6 then
        \<lparr> beforeRequest = Some (\<lambda>rq. Inr (rq\<lparr>abortSignal := Some (Signal 7)\<rparr>)),
          afterRequest = None \<rparr>
      else no_hook)"

definition ex_base :: string where
  "ex_base = ''https://api.example.com''"

definition ex_options :: client_options where
  "ex_options = \<lparr> o_hooks = None, o_headers = None, o_timeout = None \<rparr>"

definition ex_resource :: resource_config where
  "ex_resource = \<lparr> prefix = None, rc_hooks = None, rc_headers = None, rc_timeout = None \<rparr>"

text \<open>The structured descriptor \<^verbatim>\<open>{route: r}\<close>.\<close>

definition descriptor :: "string \<Rightarrow> ex_obj pure_route" where
  "descriptor r =
     \<lparr> d_method = None, d_route = r, d_headers = None, d_timeout = None, d_body = Undefined,
       d_queryParameters = None, d_hooks = None \<rparr>"

text \<open>
  A heap with a headers object at address 0, a request at address 1 that holds it, and a
  second headers object at address 2.
\<close>

definition ex_request :: "('h, string, ex_obj, string) request" where
  "ex_request =
     \<lparr> method_name = Some ''GET'', path = Some ''/users'', baseUrl = ex_base, headers = None,
       queryParameters = Some [], body = Undefined, encoder = Some JSON_stringify,
       decoder = Some JSON_parse, timeout = None, abortSignal = None, hooks = Some [1, 2],
       route = None \<rparr>"

definition ex_heap :: "(string, ex_obj, string) heap" where
  "ex_heap =
     [HeadersObj [''A'' \<mapsto> ''1''],
      RequestObj (ex_request\<lparr>headers := Some 0\<rparr>),
      HeadersObj [''X'' \<mapsto> ''1'']]"

text \<open>The partial request with the headers object at address 2 and the hook 3.\<close>

definition ex_partial :: "(addr, string, ex_obj, string) partial_request" where
  "ex_partial = no_fields\<lparr>p_headers := Some (Some 2), p_hooks := Some (Some [3])\<rparr>"

lemmas ex_defs =
  ex_platform_def ex_response_def ex_stringify_def ex_numberToString_def ex_abortSignalTimeout_def ex_store_def ex_base_def ex_options_def
  ex_resource_def descriptor_def no_hook_def trace_hook_def ex_request_def ex_heap_def

lemmas code_defs =
  prepareCall_def call_def handleResponse_def transportCall_def initialRequest_def
  decodeRoute_def split_limit_def toUpperCase_def http_methods_def createRequest_def
  createResult_def global_layer_def resource_layer_def resourceStandardHeaders_def
  callHooks_def orElse_def orUndefined_def fullPath_def autoContentType_def sentBody_def
  sentSignal_def applyEncoder_def applyDecoder_def decodeText_def merge_def mergeObjects_def
  mergeObjects_hooks_def mergeObjects_request_def no_fields_def Let_def

section \<open>Route decoding: properties\<close>

lemma split_on_nonempty: "split_on c s \<noteq> []"
  by (induction s) (auto split: list.splits)

lemma split_on_no_sep: "c \<notin> set s \<Longrightarrow> split_on c s = [s]"
  by (induction s) auto

lemma split_on_sep_length: "c \<in> set s \<Longrightarrow> 2 \<le> length (split_on c s)"
  using split_on_nonempty[of c]
  by (induction s) (auto split: list.splits simp: split_on_no_sep Suc_le_eq)

text \<open>A route without a space and without a separate method is a GET of the whole route.\<close>

lemma decodeRoute_bare:
  "CHR '' '' \<notin> set r \<Longrightarrow> decodeRoute None r = Inr (''GET'', Some r)"
  by (simp add: decodeRoute_def split_limit_def split_on_no_sep)

text \<open>
  In every other case the outcome is decided by the upper-cased first token: a token
  outside the five verbs gives the error whose message holds the upper-cased token and the
  whole route.
\<close>

lemma decodeRoute_invalid:
  assumes "CHR '' '' \<in> set r \<or> m \<noteq> None"
      and "toUpperCase (hd (split_on CHR '' '' r)) \<notin> set http_methods"
  shows "decodeRoute m r =
           Inl (Error (''Invalid HTTP method: '' @ toUpperCase (hd (split_on CHR '' '' r))
                         @ '' at route: '' @ r))"
proof -
  obtain t ts where ts: "split_on CHR '' '' r = t # ts"
    using split_on_nonempty[of "CHR '' ''" r] by (cases "split_on CHR '' '' r") auto
  have not_first: "\<not> (length (take 2 (split_on CHR '' '' r)) = 1 \<and> m = None)"
    using assms(1) split_on_sep_length[of "CHR '' ''" r] by auto
  show ?thesis
    using assms(2) not_first ts
    by (cases ts) (auto simp: decodeRoute_def split_limit_def)
qed

text \<open>
  A first token that is one of the five verbs up to case gives the upper-cased verb and the
  second piece as the path; for a route with one space that piece is all that follows
  the space.
\<close>

lemma decodeRoute_verb:
  assumes "split_on CHR '' '' r = t # p # rest"
      and "toUpperCase t \<in> set http_methods"
  shows "decodeRoute m r = Inr (toUpperCase t, Some p)"
  using assms by (simp add: decodeRoute_def split_limit_def)

lemma split_on_one_space:
  assumes "CHR '' '' \<notin> set t" and "CHR '' '' \<notin> set p"
  shows "split_on CHR '' '' (t @ CHR '' '' # p) = [t, p]"
  using assms by (induction t) (auto simp: split_on_no_sep)

lemma decodeRoute_verb_path:
  assumes "CHR '' '' \<notin> set t" and "CHR '' '' \<notin> set p"
      and "toUpperCase t \<in> set http_methods"
  shows "decodeRoute m (t @ CHR '' '' # p) = Inr (toUpperCase t, Some p)"
  using decodeRoute_verb[OF split_on_one_space[OF assms(1,2)] assms(3)] .

text \<open>
  Claim C4 (route decoding): a route without a space and with no separate method decodes
  to GET and the unchanged route; otherwise the route is split at its first space into a
  token and a path, a token that is one of the five verbs up to case gives the
  upper-cased verb and the unchanged remainder as the path, and any other token fails.
  The path that \<^verbatim>\<open>decodeRoute\<close> returns is the text between the first and the
  second space: for \<^verbatim>\<open>"GET /a b"\<close> it is \<^verbatim>\<open>/a\<close>, not the remainder
  \<^verbatim>\<open>/a b\<close>.
\<close>

theorem decodeRoute_drops_text_after_second_space:
  "decodeRoute None ''GET /a b'' = Inr (''GET'', Some ''/a'')"
  by (simp add: decodeRoute_def split_limit_def toUpperCase_def http_methods_def)

text \<open>
  Claim C2 (structured descriptors): the method of a structured descriptor is used for
  the request without being derived again from the route string, so that the descriptor
  \<^verbatim>\<open>{method: "POST", route: "/users"}\<close> gives a POST of \<^verbatim>\<open>/users\<close>.
  The call of line 29 passes the route of the descriptor to \<^verbatim>\<open>decodeRoute\<close>
  together with the method; with a method given the one-token case of line 138 is
  skipped, the whole route is read as the verb, and no request is built.
\<close>

theorem structured_method_with_space_free_route_fails:
  "initialRequest base global res
     (StructuredRoute ((descriptor ''/users'')\<lparr>d_method := Some ''POST''\<rparr>))
   = Inl (Error ''Invalid HTTP method: /USERS at route: /users'')"
  by (simp add: descriptor_def initialRequest_def decodeRoute_def split_limit_def
      toUpperCase_def http_methods_def)

text \<open>
  The same holds for every structured descriptor with a method and a route without a space,
  unless the route itself spells a verb.
\<close>

lemma structured_method_space_free_route:
  assumes "d_method d = Some m"
      and "CHR '' '' \<notin> set (d_route d)"
      and "toUpperCase (d_route d) \<notin> set http_methods"
  shows "(initialRequest base global res (StructuredRoute d)
            :: 'e failure + (header_map, 'e, 'o, 'd) request) =
           Inl (Error (''Invalid HTTP method: '' @ toUpperCase (d_route d)
                         @ '' at route: '' @ d_route d))"
proof -
  have "(decodeRoute (d_method d) (d_route d) :: 'e failure + string \<times> string option) =
          Inl (Error (''Invalid HTTP method: '' @ toUpperCase (d_route d)
                         @ '' at route: '' @ d_route d))"
  proof -
    have a: "CHR '' '' \<in> set (d_route d) \<or> d_method d \<noteq> None"
      using assms(1) by simp
    have b: "hd (split_on CHR '' '' (d_route d)) = d_route d"
      by (simp add: split_on_no_sep[OF assms(2)])
    from decodeRoute_invalid[OF a] assms(3) show ?thesis
      unfolding b by blast
  qed
  then show ?thesis by (simp add: initialRequest_def)
qed

text \<open>
  Where decoding succeeds, the method of a structured descriptor is the method of the
  request, whatever verb the route string holds.
\<close>

lemma structured_method_used_when_decoded:
  assumes "initialRequest base global res (StructuredRoute d) = Inr request0"
      and "d_method d = Some m"
  shows "method_name request0 = Some m"
  using assms
  by (auto simp: initialRequest_def createRequest_def orElse_def split: sum.splits)

section \<open>The transport boundary: properties\<close>

text \<open>
  Claim C1 (automatic Content-Type): with the default JSON encoder and no Content-Type
  set by any layer, the header \<^verbatim>\<open>Content-Type: application/json\<close> is added after
  the before-request hooks and is among the headers the transport is invoked with; for
  the route \<^verbatim>\<open>"POST /users"\<close> with the body \<^verbatim>\<open>{"name":"a"}\<close> and the default
  configuration the transport gets the method POST, the URL of the base followed by
  \<^verbatim>\<open>/users\<close>, the encoded body and that header.
  At this input the method, the URL and the body are as stated and the request passed on
  to the after-request hooks has the header, but the headers given to the transport are
  the ones read at line 64, before line 83 replaced the request: they are empty.
\<close>

theorem content_type_missing_from_transport_headers:
  "(case prepareCall (ex_platform ''ok'') ex_store ex_base None ex_resource
          (StructuredRoute ((descriptor ''POST /users'')\<lparr>d_body := Object [(''name'', ''a'')]\<rparr>)) of
      Inl err \<Rightarrow> False
    | Inr (hs, request1, request2, fc) \<Rightarrow>
        f_method fc = ''POST''
        \<and> f_url fc = \<lparr> href = ''https://api.example.com/users'', searchParams = [] \<rparr>
        \<and> f_body fc = Text (''{'' @ [CHR 0x22] @ ''name'' @ [CHR 0x22] @ '':''
                               @ [CHR 0x22] @ ''a'' @ [CHR 0x22] @ ''}'')
        \<and> f_headers fc = Some Map.empty
        \<and> headers request2 = Some [''Content-Type'' \<mapsto> ''application/json''])"
  by (simp add: ex_defs code_defs)

lemma prepareCall_hooks:
  assumes "initialRequest base (global_layer options) (resource_layer resource) result = Inr request0"
  shows "prepareCall plat store base options resource result =
           (case runBeforeRequest store (callHooks (global_layer options) (resource_layer resource) request0) request0 of
              Inl err \<Rightarrow> Inl err
            | Inr request1 \<Rightarrow>
                (case transportCall plat resource request1 of
                   Inl err \<Rightarrow> Inl err
                 | Inr (request2, fc) \<Rightarrow>
                     Inr (callHooks (global_layer options) (resource_layer resource) request0,
                          request1, request2, fc)))"
  using assms by (simp add: prepareCall_def Let_def)

lemma autoContentType_keeps:
  "abortSignal (autoContentType request) = abortSignal request"
  "timeout (autoContentType request) = timeout request"
  by (simp_all add: autoContentType_def merge_def mergeObjects_request_def no_fields_def orElse_def)

lemma prepareCall_transport:
  assumes "prepareCall plat store base options resource result = Inr (hs, request1, request2, fc)"
  shows "transportCall plat resource request1 = Inr (request2, fc)"
  using assms by (auto simp: prepareCall_def Let_def split: sum.splits)

lemma transportCall_fields:
  assumes "transportCall plat resource request = Inr (request', fc)"
  shows "request' = autoContentType request"
    and "sentSignal plat (autoContentType request) = Inr (f_signal fc)"
    and "Inr (f_body fc) = sentBody plat (orElse (encoder request) JSON_stringify) (body request)"
    and "f_headers fc = headers request"
    and "f_method fc = orElse (method_name request) ''GET''"
  using assms by (auto simp: transportCall_def Let_def split: sum.splits)

lemma prepareCall_after_hooks:
  assumes "initialRequest base (global_layer options) (resource_layer resource) result = Inr request0"
      and "runBeforeRequest store (callHooks (global_layer options) (resource_layer resource) request0)
             request0 = Inr request1"
  shows "prepareCall plat store base options resource result =
           (case transportCall plat resource request1 of
              Inl err \<Rightarrow> Inl err
            | Inr (request2, fc) \<Rightarrow>
                Inr (callHooks (global_layer options) (resource_layer resource) request0,
                     request1, request2, fc))"
  using assms by (simp add: prepareCall_def Let_def)

lemma transportCall_after_body:
  assumes "new_URL plat (fullPath resource request) = Inr h"
      and "sentBody plat (orElse (encoder request) JSON_stringify) (body request) = Inr b"
  shows "transportCall plat resource request =
           (case sentSignal plat (autoContentType request) of
              Inl err \<Rightarrow> Inl err
            | Inr sg \<Rightarrow>
                Inr (autoContentType request,
                     \<lparr> f_url = \<lparr> href = h,
                                  searchParams =
                                    (case queryParameters request of
                                       None \<Rightarrow> []
                                     | Some qs \<Rightarrow>
                                         map (\<lambda>(k, v). (k, toString (numberToString plat) v)) qs) \<rparr>,
                       f_method = orElse (method_name request) ''GET'',
                       f_body = b,
                       f_headers = headers request,
                       f_signal = sg \<rparr>))"
  using assms by (simp add: transportCall_def Let_def)

lemma sentSignal_autoContentType:
  "sentSignal plat (autoContentType request) = sentSignal plat request"
  unfolding sentSignal_def autoContentType_keeps by (rule refl)

text \<open>
  Which bodies are falsy, and which are passed through.
\<close>

lemma number_truthy_iff: "number_truthy n = (n \<noteq> Finite 0 \<and> n \<noteq> NaN)"
  by (cases n) auto

lemma passthrough_kinds:
  "passthrough b = (\<exists>s x. b = Text s \<or> b = ReadableStream x \<or> b = FormData x
                          \<or> b = ArrayBuffer x \<or> b = URLSearchParams x)"
  by (cases b) auto

lemma falsy_bodies:
  "(\<not> truthy b) = (b = Undefined \<or> b = Null \<or> b = Boolean False \<or> b = Number (Finite 0)
                    \<or> b = Number NaN \<or> b = Text [])"
proof (cases b)
  case (Number n)
  then show ?thesis by (cases n) auto
qed auto

text \<open>
  Claim C9 (body handling), as the code has it: for a call that reaches the transport, no
  body is sent when the body of the final request is falsy (absent, \<^verbatim>\<open>null\<close>,
  \<^verbatim>\<open>false\<close>, \<^verbatim>\<open>0\<close>, \<^verbatim>\<open>NaN\<close> or the empty string); a truthy
  body that is raw text, a stream, form data, an \<^verbatim>\<open>ArrayBuffer\<close> or URL search
  parameters is sent as it is; every other truthy body that is not a binary buffer is
  sent as the text the active encoder returns for it.  What is sent for a binary buffer
  that is not an \<^verbatim>\<open>ArrayBuffer\<close> is not part of the statement.
\<close>

theorem body_sent_to_transport:
  assumes "prepareCall plat store base options resource result = Inr (hs, request1, request2, fc)"
  shows "(body request1 = Undefined \<or> body request1 = Null \<or> body request1 = Boolean False
            \<or> body request1 = Number (Finite 0) \<or> body request1 = Number NaN
            \<or> body request1 = Text []
          \<longrightarrow> f_body fc = Undefined)
         \<and> ((\<exists>s. body request1 = Text s \<and> s \<noteq> []) \<or> (\<exists>x. body request1 = ReadableStream x)
            \<or> (\<exists>x. body request1 = FormData x) \<or> (\<exists>x. body request1 = ArrayBuffer x)
            \<or> (\<exists>x. body request1 = URLSearchParams x)
          \<longrightarrow> f_body fc = body request1)
         \<and> (body request1 = Boolean True
            \<or> (\<exists>n. body request1 = Number n \<and> n \<noteq> Finite 0 \<and> n \<noteq> NaN)
            \<or> (\<exists>x. body request1 = Object x)
          \<longrightarrow> (\<exists>s. applyEncoder plat (orElse (encoder request1) JSON_stringify) (body request1)
                      = Inr s
                   \<and> f_body fc = Text s))"
proof -
  note sb = transportCall_fields(3)[OF prepareCall_transport[OF assms]]
  have falsy: "f_body fc = Undefined" if "\<not> truthy (body request1)"
    using sb that by (simp add: sentBody_def)
  have pass: "f_body fc = body request1" if "truthy (body request1)" "passthrough (body request1)"
    using sb that by (simp add: sentBody_def)
  have enc: "\<exists>s. applyEncoder plat (orElse (encoder request1) JSON_stringify) (body request1) = Inr s
                   \<and> f_body fc = Text s"
    if "truthy (body request1)" "\<not> passthrough (body request1)"
    using sb that by (auto simp: sentBody_def split: sum.splits)
  have one: "body request1 = Undefined \<or> body request1 = Null \<or> body request1 = Boolean False
            \<or> body request1 = Number (Finite 0) \<or> body request1 = Number NaN
            \<or> body request1 = Text []
          \<longrightarrow> f_body fc = Undefined"
    using falsy by (auto simp: falsy_bodies)
  have two: "(\<exists>s. body request1 = Text s \<and> s \<noteq> []) \<or> (\<exists>x. body request1 = ReadableStream x)
            \<or> (\<exists>x. body request1 = FormData x) \<or> (\<exists>x. body request1 = ArrayBuffer x)
            \<or> (\<exists>x. body request1 = URLSearchParams x)
          \<longrightarrow> f_body fc = body request1"
    using pass by auto
  have three: "body request1 = Boolean True
            \<or> (\<exists>n. body request1 = Number n \<and> n \<noteq> Finite 0 \<and> n \<noteq> NaN)
            \<or> (\<exists>x. body request1 = Object x)
          \<longrightarrow> (\<exists>s. applyEncoder plat (orElse (encoder request1) JSON_stringify) (body request1)
                      = Inr s
                   \<and> f_body fc = Text s)"
  proof
    assume a: "body request1 = Boolean True
            \<or> (\<exists>n. body request1 = Number n \<and> n \<noteq> Finite 0 \<and> n \<noteq> NaN)
            \<or> (\<exists>x. body request1 = Object x)"
    then have "truthy (body request1)" "\<not> passthrough (body request1)"
      by (auto simp: number_truthy_iff)
    then show "\<exists>s. applyEncoder plat (orElse (encoder request1) JSON_stringify) (body request1)
                      = Inr s
                   \<and> f_body fc = Text s"
      by (rule enc)
  qed
  from one two three show ?thesis by blast
qed

text \<open>
  The cases at concrete calls: a string route (no body), a raw text body, an
  \<^verbatim>\<open>ArrayBuffer\<close> and an object body.
\<close>

theorem body_sent_to_transport_examples:
  "(\<exists>hs request1 request2 fc.
      prepareCall (ex_platform ''ok'') ex_store ex_base None ex_resource (StringRoute ''/users'')
        = Inr (hs, request1, request2, fc)
      \<and> body request1 = Undefined \<and> f_body fc = Undefined)
   \<and> (\<exists>hs request1 request2 fc.
      prepareCall (ex_platform ''ok'') ex_store ex_base None ex_resource
          (StructuredRoute ((descriptor ''POST /notes'')\<lparr>d_body := Text ''raw text''\<rparr>))
        = Inr (hs, request1, request2, fc)
      \<and> body request1 = Text ''raw text'' \<and> f_body fc = Text ''raw text'')
   \<and> (\<exists>hs request1 request2 fc.
      prepareCall (ex_platform ''ok'') ex_store ex_base None ex_resource
          (StructuredRoute ((descriptor ''POST /files'')\<lparr>d_body := ArrayBuffer [(''0'', ''1'')]\<rparr>))
        = Inr (hs, request1, request2, fc)
      \<and> body request1 = ArrayBuffer [(''0'', ''1'')] \<and> f_body fc = ArrayBuffer [(''0'', ''1'')])
   \<and> (\<exists>hs request1 request2 fc.
      prepareCall (ex_platform ''ok'') ex_store ex_base None ex_resource
          (StructuredRoute ((descriptor ''POST /users'')\<lparr>d_body := Object [(''name'', ''a'')]\<rparr>))
        = Inr (hs, request1, request2, fc)
      \<and> body request1 = Object [(''name'', ''a'')]
      \<and> f_body fc = Text (''{'' @ [CHR 0x22] @ ''name'' @ [CHR 0x22] @ '':''
                             @ [CHR 0x22] @ ''a'' @ [CHR 0x22] @ ''}''))"
proof -
  let ?P = "ex_platform ''ok''"
  have "\<exists>hs request1 request2 fc.
      prepareCall ?P ex_store ex_base None ex_resource (StringRoute ''/users'')
        = Inr (hs, request1, request2, fc)
      \<and> body request1 = Undefined"
    by (simp add: ex_defs code_defs)
  then obtain hs1 r1 r1' fc1 where
    a: "prepareCall ?P ex_store ex_base None ex_resource (StringRoute ''/users'')
        = Inr (hs1, r1, r1', fc1)" and a': "body r1 = Undefined"
    by blast
  from body_sent_to_transport[OF a] a' have a'': "f_body fc1 = Undefined" by simp
  have "\<exists>hs request1 request2 fc.
      prepareCall ?P ex_store ex_base None ex_resource
          (StructuredRoute ((descriptor ''POST /notes'')\<lparr>d_body := Text ''raw text''\<rparr>))
        = Inr (hs, request1, request2, fc)
      \<and> body request1 = Text ''raw text''"
    by (simp add: ex_defs code_defs)
  then obtain hs2 r2 r2' fc2 where
    b: "prepareCall ?P ex_store ex_base None ex_resource
          (StructuredRoute ((descriptor ''POST /notes'')\<lparr>d_body := Text ''raw text''\<rparr>))
        = Inr (hs2, r2, r2', fc2)" and b': "body r2 = Text ''raw text''"
    by blast
  from body_sent_to_transport[OF b] b' have b'': "f_body fc2 = Text ''raw text''" by simp
  have "\<exists>hs request1 request2 fc.
      prepareCall ?P ex_store ex_base None ex_resource
          (StructuredRoute ((descriptor ''POST /files'')\<lparr>d_body := ArrayBuffer [(''0'', ''1'')]\<rparr>))
        = Inr (hs, request1, request2, fc)
      \<and> body request1 = ArrayBuffer [(''0'', ''1'')]"
    by (simp add: ex_defs code_defs)
  then obtain hs4 r4 r4' fc4 where
    d: "prepareCall ?P ex_store ex_base None ex_resource
          (StructuredRoute ((descriptor ''POST /files'')\<lparr>d_body := ArrayBuffer [(''0'', ''1'')]\<rparr>))
        = Inr (hs4, r4, r4', fc4)" and d': "body r4 = ArrayBuffer [(''0'', ''1'')]"
    by blast
  from body_sent_to_transport[OF d] d' have d'': "f_body fc4 = ArrayBuffer [(''0'', ''1'')]" by simp
  have "\<exists>hs request1 request2 fc.
      prepareCall ?P ex_store ex_base None ex_resource
          (StructuredRoute ((descriptor ''POST /users'')\<lparr>d_body := Object [(''name'', ''a'')]\<rparr>))
        = Inr (hs, request1, request2, fc)
      \<and> body request1 = Object [(''name'', ''a'')] \<and> encoder request1 = None"
    by (simp add: ex_defs code_defs)
  then obtain hs3 r3 r3' fc3 where
    c: "prepareCall ?P ex_store ex_base None ex_resource
          (StructuredRoute ((descriptor ''POST /users'')\<lparr>d_body := Object [(''name'', ''a'')]\<rparr>))
        = Inr (hs3, r3, r3', fc3)"
    and c': "body r3 = Object [(''name'', ''a'')]" "encoder r3 = None"
    by blast
  from body_sent_to_transport[OF c] c'
  have c'': "f_body fc3 = Text (''{'' @ [CHR 0x22] @ ''name'' @ [CHR 0x22] @ '':''
                             @ [CHR 0x22] @ ''a'' @ [CHR 0x22] @ ''}'')"
    by (simp add: applyEncoder_def orElse_def ex_platform_def ex_stringify_def)
  from a a' a'' b b' b'' c c' c'' d d' d'' show ?thesis by blast
qed

text \<open>
  The claim as stated fails in two ways.  A body that is neither absent nor of a
  passthrough kind is not always sent encoded, and raw text is not always sent as given:
  for the body \<^verbatim>\<open>0\<close> the encoder would give the text \<^verbatim>\<open>0\<close> and no body
  is sent, and for the empty string no body is sent.  A binary buffer is not always
  sent as given: a buffer that is not an \<^verbatim>\<open>ArrayBuffer\<close>, a
  \<^verbatim>\<open>Uint8Array\<close> for instance, goes through the encoder.
\<close>

theorem falsy_body_and_buffer_view_diverge:
  "(case prepareCall (ex_platform ''ok'') ex_store ex_base None ex_resource
          (StructuredRoute ((descriptor ''POST /n'')\<lparr>d_body := Number (Finite 0)\<rparr>)) of
      Inl err \<Rightarrow> False
    | Inr (hs, request1, request2, fc) \<Rightarrow>
        body request1 = Number (Finite 0)
        \<and> applyEncoder (ex_platform ''ok'') (orElse (encoder request1) JSON_stringify)
              (Number (Finite 0)) = Inr ''0''
        \<and> f_body fc = Undefined \<and> f_body fc \<noteq> Text ''0'')
   \<and> (case prepareCall (ex_platform ''ok'') ex_store ex_base None ex_resource
          (StructuredRoute ((descriptor ''POST /t'')\<lparr>d_body := Text []\<rparr>)) of
      Inl err \<Rightarrow> False
    | Inr (hs, request1, request2, fc) \<Rightarrow>
        body request1 = Text [] \<and> f_body fc = Undefined \<and> f_body fc \<noteq> body request1)
   \<and> (case prepareCall (ex_platform ''ok'') ex_store ex_base None ex_resource
          (StructuredRoute ((descriptor ''POST /files'')\<lparr>d_body := BufferView [(''0'', ''1'')]\<rparr>)) of
      Inl err \<Rightarrow> False
    | Inr (hs, request1, request2, fc) \<Rightarrow>
        body request1 = BufferView [(''0'', ''1'')]
        \<and> f_body fc = Text (''{'' @ [CHR 0x22] @ ''0'' @ [CHR 0x22] @ '':''
                               @ [CHR 0x22] @ ''1'' @ [CHR 0x22] @ ''}'')
        \<and> f_body fc \<noteq> body request1)"
  by (simp add: ex_defs code_defs showNat.simps)

text \<open>
  Claim C7 (timeout and cancellation), as the code has it: the timeout of the request of a
  call is the first value present among the descriptor's, the resource's and the global
  one.  For a call whose before-request hooks, URL and body succeed: when the final
  request has an abort signal, the transport gets that signal; otherwise, when its
  timeout is absent or falsy (\<^verbatim>\<open>0\<close> or \<^verbatim>\<open>NaN\<close>), the transport gets no
  signal; otherwise the transport gets the signal \<^verbatim>\<open>AbortSignal.timeout\<close> returns
  for the timeout, and when \<^verbatim>\<open>AbortSignal.timeout\<close> throws instead the call rejects
  with what it threw.
\<close>

theorem timeout_precedence_and_signal:
  fixes plat :: "('e, 'o, 'd) platform"
    and request0 :: "(header_map, 'e, 'o, 'd) request"
  assumes "initialRequest base (global_layer options) (resource_layer resource) result = Inr request0"
      and "runBeforeRequest store
             (l_hooks (global_layer options) @ l_hooks (resource_layer resource)
                @ orElse (hooks request0) [])
             request0 = Inr request1"
      and "new_URL plat (fullPath resource request1) = Inr h"
      and "sentBody plat (orElse (encoder request1) JSON_stringify) (body request1) = Inr b"
  shows "timeout request0 =
           firstPresent [case result of StringRoute s \<Rightarrow> None | StructuredRoute d \<Rightarrow> d_timeout d,
                         rc_timeout resource,
                         case options of None \<Rightarrow> None | Some opt \<Rightarrow> o_timeout opt]
         \<and> (case abortSignal request1 of
               Some sg \<Rightarrow> transportGetsSignal plat store base options resource result (Some sg)
             | None \<Rightarrow>
                 (case timeout request1 of
                    None \<Rightarrow> transportGetsSignal plat store base options resource result None
                  | Some t \<Rightarrow>
                      if t = Finite 0 \<or> t = NaN
                      then transportGetsSignal plat store base options resource result None
                      else (case abortSignalTimeout plat t of
                              Inl e \<Rightarrow>
                                call plat store base options resource result = Inl (Thrown e)
                            | Inr sg \<Rightarrow>
                                transportGetsSignal plat store base options resource result (Some sg))))"
proof -
  have fp: "orUndefined a (orUndefined x c) = firstPresent [a, x, c]" for a x c :: "js_number option"
    by (cases a; cases x; cases c) (simp_all add: orUndefined_def)
  have first: "timeout request0 =
           firstPresent [case result of StringRoute s \<Rightarrow> None | StructuredRoute d \<Rightarrow> d_timeout d,
                         rc_timeout resource,
                         case options of None \<Rightarrow> None | Some opt \<Rightarrow> o_timeout opt]"
    using assms(1)
    by (cases result)
       (auto simp: initialRequest_def createRequest_def fp[symmetric]
          global_layer_def resource_layer_def orUndefined_def split: sum.splits)
  have hooks: "runBeforeRequest store
                 (callHooks (global_layer options) (resource_layer resource) request0) request0
               = Inr request1"
    using assms(2) by (simp add: callHooks_def)
  note prep = prepareCall_after_hooks[OF assms(1) hooks, of plat]
  note tr = transportCall_after_body[OF assms(3,4), unfolded sentSignal_autoContentType]
  have second: "(case abortSignal request1 of
               Some sg \<Rightarrow> transportGetsSignal plat store base options resource result (Some sg)
             | None \<Rightarrow>
                 (case timeout request1 of
                    None \<Rightarrow> transportGetsSignal plat store base options resource result None
                  | Some t \<Rightarrow>
                      if t = Finite 0 \<or> t = NaN
                      then transportGetsSignal plat store base options resource result None
                      else (case abortSignalTimeout plat t of
                              Inl e \<Rightarrow>
                                call plat store base options resource result = Inl (Thrown e)
                            | Inr sg \<Rightarrow>
                                transportGetsSignal plat store base options resource result (Some sg))))"
  proof (cases "abortSignal request1")
    case (Some sg)
    then have ss: "sentSignal plat request1 = Inr (Some sg)"
      by (simp add: sentSignal_def)
    show ?thesis
      by (simp add: Some transportGetsSignal_def prep tr ss)
  next
    case None
    note ns = None
    show ?thesis
    proof (cases "timeout request1")
      case None
      with ns have ss: "sentSignal plat request1 = Inr None"
        by (simp add: sentSignal_def)
      show ?thesis
        by (simp add: ns None transportGetsSignal_def prep tr ss)
    next
      case (Some t)
      show ?thesis
      proof (cases "number_truthy t")
        case False
        with ns Some have ss: "sentSignal plat request1 = Inr None"
          by (simp add: sentSignal_def)
        from False have ft: "t = Finite 0 \<or> t = NaN"
          by (simp add: number_truthy_iff)
        show ?thesis
          by (simp add: ns Some ft transportGetsSignal_def prep tr ss)
      next
        case True
        then have ft: "\<not> (t = Finite 0 \<or> t = NaN)"
          by (simp add: number_truthy_iff)
        show ?thesis
        proof (cases "abortSignalTimeout plat t")
          case (Inl e)
          with ns Some True have ss: "sentSignal plat request1 = Inl (Thrown e)"
            by (simp add: sentSignal_def)
          show ?thesis
            by (simp add: ns Some ft Inl call_def prep tr ss)
        next
          case (Inr sg)
          with ns Some True have ss: "sentSignal plat request1 = Inr (Some sg)"
            by (simp add: sentSignal_def)
          show ?thesis
            by (simp add: ns Some ft Inr transportGetsSignal_def prep tr ss)
        qed
      qed
    qed
  qed
  from first second show ?thesis by blast
qed

text \<open>
  Three calls: a global timeout of 3000, a resource timeout of 2000 and a descriptor
  timeout of 1000 give the request the timeout 1000 and the transport the signal for
  1000; a hook that sets an abort signal makes that signal the one the transport gets,
  whatever the timeout; a timeout of -5 makes the call reject with the
  \<^verbatim>\<open>TypeError\<close> of \<^verbatim>\<open>AbortSignal.timeout\<close>.
\<close>

theorem timeout_precedence_and_signal_examples:
  "(\<exists>(request0 :: (header_map, string, ex_obj, string) request) request1 h b.
      initialRequest ex_base
         (global_layer (Some (ex_options\<lparr>o_timeout := Some (Finite 3000)\<rparr>)))
         (resource_layer (ex_resource\<lparr>rc_timeout := Some (Finite 2000)\<rparr>))
         (StructuredRoute ((descriptor ''/x'')\<lparr>d_timeout := Some (Finite 1000)\<rparr>))
        = Inr request0
      \<and> runBeforeRequest ex_store
           (l_hooks (global_layer (Some (ex_options\<lparr>o_timeout := Some (Finite 3000)\<rparr>)))
              @ l_hooks (resource_layer (ex_resource\<lparr>rc_timeout := Some (Finite 2000)\<rparr>))
              @ orElse (hooks request0) [])
           request0 = Inr request1
      \<and> new_URL (ex_platform ''ok'')
           (fullPath (ex_resource\<lparr>rc_timeout := Some (Finite 2000)\<rparr>) request1) = Inr h
      \<and> sentBody (ex_platform ''ok'') (orElse (encoder request1) JSON_stringify) (body request1)
           = Inr b
      \<and> abortSignal request1 = None
      \<and> timeout request0 = Some (Finite 1000)
      \<and> transportGetsSignal (ex_platform ''ok'') ex_store ex_base
           (Some (ex_options\<lparr>o_timeout := Some (Finite 3000)\<rparr>))
           (ex_resource\<lparr>rc_timeout := Some (Finite 2000)\<rparr>)
           (StructuredRoute ((descriptor ''/x'')\<lparr>d_timeout := Some (Finite 1000)\<rparr>))
           (Some (TimeoutSignal 1000)))
   \<and> (\<exists>(request0 :: (header_map, string, ex_obj, string) request) request1 h b.
      initialRequest ex_base
         (global_layer (Some (ex_options\<lparr>o_hooks := Some [6]\<rparr>)))
         (resource_layer (ex_resource\<lparr>rc_timeout := Some (Finite 2000)\<rparr>))
         (StringRoute ''/users'')
        = Inr request0
      \<and> runBeforeRequest ex_store
           (l_hooks (global_layer (Some (ex_options\<lparr>o_hooks := Some [6]\<rparr>)))
              @ l_hooks (resource_layer (ex_resource\<lparr>rc_timeout := Some (Finite 2000)\<rparr>))
              @ orElse (hooks request0) [])
           request0 = Inr request1
      \<and> new_URL (ex_platform ''ok'')
           (fullPath (ex_resource\<lparr>rc_timeout := Some (Finite 2000)\<rparr>) request1) = Inr h
      \<and> sentBody (ex_platform ''ok'') (orElse (encoder request1) JSON_stringify) (body request1)
           = Inr b
      \<and> abortSignal request1 = Some (Signal 7)
      \<and> timeout request1 = Some (Finite 2000)
      \<and> transportGetsSignal (ex_platform ''ok'') ex_store ex_base
           (Some (ex_options\<lparr>o_hooks := Some [6]\<rparr>))
           (ex_resource\<lparr>rc_timeout := Some (Finite 2000)\<rparr>)
           (StringRoute ''/users'')
           (Some (Signal 7)))
   \<and> (\<exists>(request0 :: (header_map, string, ex_obj, string) request) request1 h b.
      initialRequest ex_base (global_layer None)
         (resource_layer (ex_resource\<lparr>rc_timeout := Some (Finite (- 5))\<rparr>))
         (StringRoute ''/users'')
        = Inr request0
      \<and> runBeforeRequest ex_store
           (l_hooks (global_layer None)
              @ l_hooks (resource_layer (ex_resource\<lparr>rc_timeout := Some (Finite (- 5))\<rparr>))
              @ orElse (hooks request0) [])
           request0 = Inr request1
      \<and> new_URL (ex_platform ''ok'')
           (fullPath (ex_resource\<lparr>rc_timeout := Some (Finite (- 5))\<rparr>) request1) = Inr h
      \<and> sentBody (ex_platform ''ok'') (orElse (encoder request1) JSON_stringify) (body request1)
           = Inr b
      \<and> abortSignal request1 = None
      \<and> timeout request1 = Some (Finite (- 5))
      \<and> abortSignalTimeout (ex_platform ''ok'') (Finite (- 5)) = Inl ''TypeError''
      \<and> call (ex_platform ''ok'') ex_store ex_base None
           (ex_resource\<lparr>rc_timeout := Some (Finite (- 5))\<rparr>) (StringRoute ''/users'')
          = Inl (Thrown ''TypeError''))"
proof -
  let ?P = "ex_platform ''ok''"
  have one: "\<exists>(request0 :: (header_map, string, ex_obj, string) request) request1 h b.
      initialRequest ex_base
         (global_layer (Some (ex_options\<lparr>o_timeout := Some (Finite 3000)\<rparr>)))
         (resource_layer (ex_resource\<lparr>rc_timeout := Some (Finite 2000)\<rparr>))
         (StructuredRoute ((descriptor ''/x'')\<lparr>d_timeout := Some (Finite 1000)\<rparr>))
        = Inr request0
      \<and> runBeforeRequest ex_store
           (l_hooks (global_layer (Some (ex_options\<lparr>o_timeout := Some (Finite 3000)\<rparr>)))
              @ l_hooks (resource_layer (ex_resource\<lparr>rc_timeout := Some (Finite 2000)\<rparr>))
              @ orElse (hooks request0) [])
           request0 = Inr request1
      \<and> new_URL ?P (fullPath (ex_resource\<lparr>rc_timeout := Some (Finite 2000)\<rparr>) request1) = Inr h
      \<and> sentBody ?P (orElse (encoder request1) JSON_stringify) (body request1) = Inr b
      \<and> abortSignal request1 = None
      \<and> timeout request0 = Some (Finite 1000)
      \<and> transportGetsSignal ?P ex_store ex_base
           (Some (ex_options\<lparr>o_timeout := Some (Finite 3000)\<rparr>))
           (ex_resource\<lparr>rc_timeout := Some (Finite 2000)\<rparr>)
           (StructuredRoute ((descriptor ''/x'')\<lparr>d_timeout := Some (Finite 1000)\<rparr>))
           (Some (TimeoutSignal 1000))"
  proof -
    let ?o = "Some (ex_options\<lparr>o_timeout := Some (Finite 3000)\<rparr>)"
    let ?r = "ex_resource\<lparr>rc_timeout := Some (Finite 2000)\<rparr>"
    let ?d = "StructuredRoute ((descriptor ''/x'')\<lparr>d_timeout := Some (Finite 1000)\<rparr>)"
    have "\<exists>(request0 :: (header_map, string, ex_obj, string) request) request1 h b.
        initialRequest ex_base (global_layer ?o) (resource_layer ?r) ?d = Inr request0
        \<and> runBeforeRequest ex_store
             (l_hooks (global_layer ?o) @ l_hooks (resource_layer ?r) @ orElse (hooks request0) [])
             request0 = Inr request1
        \<and> new_URL ?P (fullPath ?r request1) = Inr h
        \<and> sentBody ?P (orElse (encoder request1) JSON_stringify) (body request1) = Inr b
        \<and> abortSignal request1 = None \<and> timeout request1 = Some (Finite 1000)"
      by (simp add: ex_defs code_defs)
    then obtain request0 :: "(header_map, string, ex_obj, string) request" and request1 h b where
      hy: "initialRequest ex_base (global_layer ?o) (resource_layer ?r) ?d = Inr request0"
          "runBeforeRequest ex_store
             (l_hooks (global_layer ?o) @ l_hooks (resource_layer ?r) @ orElse (hooks request0) [])
             request0 = Inr request1"
          "new_URL ?P (fullPath ?r request1) = Inr h"
          "sentBody ?P (orElse (encoder request1) JSON_stringify) (body request1) = Inr b"
      and v: "abortSignal request1 = None" "timeout request1 = Some (Finite 1000)"
      by blast
    from timeout_precedence_and_signal[OF hy]
    have "timeout request0 = Some (Finite 1000)
          \<and> transportGetsSignal ?P ex_store ex_base ?o ?r ?d (Some (TimeoutSignal 1000))"
      by (simp add: v descriptor_def ex_resource_def ex_options_def ex_platform_def
          ex_abortSignalTimeout_def)
    with hy v show ?thesis by blast
  qed
  have two: "\<exists>(request0 :: (header_map, string, ex_obj, string) request) request1 h b.
      initialRequest ex_base
         (global_layer (Some (ex_options\<lparr>o_hooks := Some [6]\<rparr>)))
         (resource_layer (ex_resource\<lparr>rc_timeout := Some (Finite 2000)\<rparr>))
         (StringRoute ''/users'')
        = Inr request0
      \<and> runBeforeRequest ex_store
           (l_hooks (global_layer (Some (ex_options\<lparr>o_hooks := Some [6]\<rparr>)))
              @ l_hooks (resource_layer (ex_resource\<lparr>rc_timeout := Some (Finite 2000)\<rparr>))
              @ orElse (hooks request0) [])
           request0 = Inr request1
      \<and> new_URL ?P (fullPath (ex_resource\<lparr>rc_timeout := Some (Finite 2000)\<rparr>) request1) = Inr h
      \<and> sentBody ?P (orElse (encoder request1) JSON_stringify) (body request1) = Inr b
      \<and> abortSignal request1 = Some (Signal 7)
      \<and> timeout request1 = Some (Finite 2000)
      \<and> transportGetsSignal ?P ex_store ex_base
           (Some (ex_options\<lparr>o_hooks := Some [6]\<rparr>))
           (ex_resource\<lparr>rc_timeout := Some (Finite 2000)\<rparr>)
           (StringRoute ''/users'')
           (Some (Signal 7))"
  proof -
    let ?o = "Some (ex_options\<lparr>o_hooks := Some [6]\<rparr>)"
    let ?r = "ex_resource\<lparr>rc_timeout := Some (Finite 2000)\<rparr>"
    let ?d = "StringRoute ''/users''"
    have "\<exists>(request0 :: (header_map, string, ex_obj, string) request) request1 h b.
        initialRequest ex_base (global_layer ?o) (resource_layer ?r) ?d = Inr request0
        \<and> runBeforeRequest ex_store
             (l_hooks (global_layer ?o) @ l_hooks (resource_layer ?r) @ orElse (hooks request0) [])
             request0 = Inr request1
        \<and> new_URL ?P (fullPath ?r request1) = Inr h
        \<and> sentBody ?P (orElse (encoder request1) JSON_stringify) (body request1) = Inr b
        \<and> abortSignal request1 = Some (Signal 7) \<and> timeout request1 = Some (Finite 2000)"
      by (simp add: ex_defs code_defs)
    then obtain request0 :: "(header_map, string, ex_obj, string) request" and request1 h b where
      hy: "initialRequest ex_base (global_layer ?o) (resource_layer ?r) ?d = Inr request0"
          "runBeforeRequest ex_store
             (l_hooks (global_layer ?o) @ l_hooks (resource_layer ?r) @ orElse (hooks request0) [])
             request0 = Inr request1"
          "new_URL ?P (fullPath ?r request1) = Inr h"
          "sentBody ?P (orElse (encoder request1) JSON_stringify) (body request1) = Inr b"
      and v: "abortSignal request1 = Some (Signal 7)" "timeout request1 = Some (Finite 2000)"
      by blast
    from timeout_precedence_and_signal[OF hy]
    have "transportGetsSignal ?P ex_store ex_base ?o ?r ?d (Some (Signal 7))"
      by (simp add: v)
    with hy v show ?thesis by blast
  qed
  have three: "\<exists>(request0 :: (header_map, string, ex_obj, string) request) request1 h b.
      initialRequest ex_base (global_layer None)
         (resource_layer (ex_resource\<lparr>rc_timeout := Some (Finite (- 5))\<rparr>))
         (StringRoute ''/users'')
        = Inr request0
      \<and> runBeforeRequest ex_store
           (l_hooks (global_layer None)
              @ l_hooks (resource_layer (ex_resource\<lparr>rc_timeout := Some (Finite (- 5))\<rparr>))
              @ orElse (hooks request0) [])
           request0 = Inr request1
      \<and> new_URL ?P (fullPath (ex_resource\<lparr>rc_timeout := Some (Finite (- 5))\<rparr>) request1) = Inr h
      \<and> sentBody ?P (orElse (encoder request1) JSON_stringify) (body request1) = Inr b
      \<and> abortSignal request1 = None
      \<and> timeout request1 = Some (Finite (- 5))
      \<and> abortSignalTimeout ?P (Finite (- 5)) = Inl ''TypeError''
      \<and> call ?P ex_store ex_base None
           (ex_resource\<lparr>rc_timeout := Some (Finite (- 5))\<rparr>) (StringRoute ''/users'')
          = Inl (Thrown ''TypeError'')"
  proof -
    let ?o = "None :: client_options option"
    let ?r = "ex_resource\<lparr>rc_timeout := Some (Finite (- 5))\<rparr>"
    let ?d = "StringRoute ''/users''"
    have "\<exists>(request0 :: (header_map, string, ex_obj, string) request) request1 h b.
        initialRequest ex_base (global_layer ?o) (resource_layer ?r) ?d = Inr request0
        \<and> runBeforeRequest ex_store
             (l_hooks (global_layer ?o) @ l_hooks (resource_layer ?r) @ orElse (hooks request0) [])
             request0 = Inr request1
        \<and> new_URL ?P (fullPath ?r request1) = Inr h
        \<and> sentBody ?P (orElse (encoder request1) JSON_stringify) (body request1) = Inr b
        \<and> abortSignal request1 = None \<and> timeout request1 = Some (Finite (- 5))"
      by (simp add: ex_defs code_defs)
    then obtain request0 :: "(header_map, string, ex_obj, string) request" and request1 h b where
      hy: "initialRequest ex_base (global_layer ?o) (resource_layer ?r) ?d = Inr request0"
          "runBeforeRequest ex_store
             (l_hooks (global_layer ?o) @ l_hooks (resource_layer ?r) @ orElse (hooks request0) [])
             request0 = Inr request1"
          "new_URL ?P (fullPath ?r request1) = Inr h"
          "sentBody ?P (orElse (encoder request1) JSON_stringify) (body request1) = Inr b"
      and v: "abortSignal request1 = None" "timeout request1 = Some (Finite (- 5))"
      by blast
    have a: "abortSignalTimeout ?P (Finite (- 5)) = Inl ''TypeError''"
      by (simp add: ex_platform_def ex_abortSignalTimeout_def)
    from timeout_precedence_and_signal[OF hy]
    have "call ?P ex_store ex_base ?o ?r ?d = Inl (Thrown ''TypeError'')"
      by (simp add: v a)
    with hy v a show ?thesis by blast
  qed
  from one two three show ?thesis by blast
qed

text \<open>
  The claim as stated, that a timeout that is set gives the transport a signal that
  triggers after it, fails for the timeouts \<^verbatim>\<open>0\<close> and \<^verbatim>\<open>NaN\<close>, which are
  set on the final request and give no signal (for \<^verbatim>\<open>0\<close> the platform would
  have made one), and for the timeout -5, with which the transport is never reached.
\<close>

theorem falsy_or_negative_timeout_gives_no_signal:
  "(case prepareCall (ex_platform ''ok'') ex_store ex_base None
           (ex_resource\<lparr>rc_timeout := Some (Finite 0)\<rparr>) (StringRoute ''/users'') of
      Inl err \<Rightarrow> False
    | Inr (hs, request1, request2, fc) \<Rightarrow>
        timeout request1 = Some (Finite 0) \<and> abortSignal request1 = None \<and> f_signal fc = None)
   \<and> abortSignalTimeout (ex_platform ''ok'') (Finite 0) = Inr (TimeoutSignal 0)
   \<and> (case prepareCall (ex_platform ''ok'') ex_store ex_base None
           (ex_resource\<lparr>rc_timeout := Some NaN\<rparr>) (StringRoute ''/users'') of
      Inl err \<Rightarrow> False
    | Inr (hs, request1, request2, fc) \<Rightarrow>
        timeout request1 = Some NaN \<and> abortSignal request1 = None \<and> f_signal fc = None)
   \<and> prepareCall (ex_platform ''ok'') ex_store ex_base None
           (ex_resource\<lparr>rc_timeout := Some (Finite (- 5))\<rparr>) (StringRoute ''/users'')
        = Inl (Thrown ''TypeError'')"
  by (simp add: ex_defs code_defs)

section \<open>Decoding the response: properties\<close>

text \<open>
  Claim C3 (decode failure), as the code has it: when the body of the response fails to
  parse under the active decoder, the call rejects with the very value the parser threw,
  not wrapped in anything, and no result is produced.
\<close>

theorem decode_failure_rejects_with_the_parse_exception:
  assumes "prepareCall plat store base options resource result = Inr (hs, request1, request2, fc)"
      and "fetch plat fc = Inr resp"
      and "resp_text resp = Inr s"
      and "decodeText plat (orElse (decoder request1) JSON_parse) s = Inl x"
  shows "call plat store base options resource result = Inl (Thrown x)
         \<and> (\<forall>r. call plat store base options resource result \<noteq> Inr r)"
  using assms by (simp add: call_def handleResponse_def applyDecoder_def)

text \<open>
  A call whose response body is not JSON, with the default decoder.
\<close>

theorem decode_failure_example:
  "(\<exists>hs request1 request2 fc.
       prepareCall (ex_platform ''not json'') ex_store ex_base None ex_resource (StringRoute ''/users'')
         = Inr (hs, request1, request2, fc)
       \<and> fetch (ex_platform ''not json'') fc = Inr (ex_response ''not json'')
       \<and> resp_text (ex_response ''not json'') = Inr ''not json''
       \<and> decodeText (ex_platform ''not json'') (orElse (decoder request1) JSON_parse) ''not json''
           = Inl ''SyntaxError'')
   \<and> call (ex_platform ''not json'') ex_store ex_base None ex_resource (StringRoute ''/users'')
       = Inl (Thrown ''SyntaxError'')"
proof -
  have ex: "\<exists>hs request1 request2 fc.
       prepareCall (ex_platform ''not json'') ex_store ex_base None ex_resource (StringRoute ''/users'')
         = Inr (hs, request1, request2, fc)
       \<and> fetch (ex_platform ''not json'') fc = Inr (ex_response ''not json'')
       \<and> resp_text (ex_response ''not json'') = Inr ''not json''
       \<and> decodeText (ex_platform ''not json'') (orElse (decoder request1) JSON_parse) ''not json''
           = Inl ''SyntaxError''"
    by (simp add: ex_defs code_defs)
  then obtain hs request1 request2 fc where
    h: "prepareCall (ex_platform ''not json'') ex_store ex_base None ex_resource (StringRoute ''/users'')
         = Inr (hs, request1, request2, fc)"
       "fetch (ex_platform ''not json'') fc = Inr (ex_response ''not json'')"
       "resp_text (ex_response ''not json'') = Inr ''not json''"
       "decodeText (ex_platform ''not json'') (orElse (decoder request1) JSON_parse) ''not json''
           = Inl ''SyntaxError''"
    by blast
  from decode_failure_rejects_with_the_parse_exception[OF h] ex show ?thesis by blast
qed

text \<open>
  The claim as stated, that the rejection is a \<open>DecodeError\<close> wrapping the parse
  exception, fails at that call: the rejection is the parse exception itself.
\<close>

theorem decode_failure_is_not_wrapped:
  "resp_text (ex_response ''not json'') = Inr ''not json''
   \<and> decodeText (ex_platform ''not json'') JSON_parse ''not json'' = Inl ''SyntaxError''
   \<and> call (ex_platform ''not json'') ex_store ex_base None ex_resource (StringRoute ''/users'')
        = Inl (Thrown ''SyntaxError'')
   \<and> call (ex_platform ''not json'') ex_store ex_base None ex_resource (StringRoute ''/users'')
        \<noteq> Inl (DecodeError ''SyntaxError'')"
  by (simp add: ex_defs code_defs)

section \<open>Configuration layers: properties\<close>

lemma runBeforeRequest_without_capability:
  "\<forall>h \<in> set hs. beforeRequest (store h) = None \<Longrightarrow> runBeforeRequest store hs request = Inr request"
  by (induction hs) auto

text \<open>
  Claim C5 (effective headers): the headers of the request of a call are the headers
  configured for the client, overwritten by the headers configured for the resource,
  overwritten by the headers of the structured descriptor; a key is looked up in the
  descriptor's headers first, then in the resource's, then in the global ones, keys
  being compared as they are written.  When no hook of the call has a
  \<^verbatim>\<open>beforeRequest\<close>, these are the headers the transport is given.
\<close>

theorem effective_headers_layered:
  fixes plat :: "('e, 'o, 'd) platform"
    and request0 :: "(header_map, 'e, 'o, 'd) request"
  assumes "initialRequest base (global_layer options) (resource_layer resource) result = Inr request0"
  shows "(let g = (case options of
                     None \<Rightarrow> Map.empty
                   | Some opt \<Rightarrow> (case o_headers opt of None \<Rightarrow> Map.empty | Some m \<Rightarrow> m));
              r = (case rc_headers resource of None \<Rightarrow> Map.empty | Some m \<Rightarrow> m);
              d = (case result of
                     StringRoute s \<Rightarrow> Map.empty
                   | StructuredRoute x \<Rightarrow> (case d_headers x of None \<Rightarrow> Map.empty | Some m \<Rightarrow> m))
          in headers request0 = Some (g ++ r ++ d)
             \<and> (\<forall>k. (g ++ r ++ d) k = firstPresent [d k, r k, g k])
             \<and> (\<forall>hs request1 request2 fc.
                   prepareCall plat store base options resource result
                     = Inr (hs, request1, request2, fc)
                   \<longrightarrow> (\<forall>h \<in> set hs. beforeRequest (store h) = None)
                   \<longrightarrow> f_headers fc = Some (g ++ r ++ d)))"
proof -
  define g where "g = (case options of
                     None \<Rightarrow> Map.empty
                   | Some opt \<Rightarrow> (case o_headers opt of None \<Rightarrow> Map.empty | Some m \<Rightarrow> m))"
  define r where "r = (case rc_headers resource of None \<Rightarrow> Map.empty | Some m \<Rightarrow> m)"
  define d where "d = (case result of
                     StringRoute s \<Rightarrow> Map.empty
                   | StructuredRoute x \<Rightarrow> (case d_headers x of None \<Rightarrow> Map.empty | Some m \<Rightarrow> m))"
  have lg: "l_headers (global_layer options) = g"
    by (simp add: g_def global_layer_def orElse_def split: option.splits)
  have lr: "l_headers (resource_layer resource) = r"
    by (simp add: r_def resource_layer_def orElse_def)
  have hd: "headers request0 = Some (g ++ r ++ d)"
    using assms unfolding lg[symmetric] lr[symmetric] d_def
    by (cases result)
       (auto simp: initialRequest_def createRequest_def resourceStandardHeaders_def orElse_def
          split: sum.splits option.splits)
  have key: "(g ++ r ++ d) k = firstPresent [d k, r k, g k]" for k
    by (cases "d k"; cases "r k"; cases "g k") (simp_all add: map_add_def)
  have tr: "f_headers fc = Some (g ++ r ++ d)"
    if p: "prepareCall plat store base options resource result = Inr (hs, request1, request2, fc)"
      and n: "\<forall>h \<in> set hs. beforeRequest (store h) = None"
    for hs request1 request2 fc
  proof -
    from p have hs: "hs = callHooks (global_layer options) (resource_layer resource) request0"
      and rb: "runBeforeRequest store hs request0 = Inr request1"
      by (auto simp: prepareCall_hooks[OF assms] split: sum.splits)
    from rb runBeforeRequest_without_capability[OF n, of request0] have "request1 = request0"
      by simp
    with transportCall_fields(4)[OF prepareCall_transport[OF p]] hd show ?thesis by simp
  qed
  from hd key tr show ?thesis
    unfolding Let_def g_def[symmetric] r_def[symmetric] d_def[symmetric] by blast
qed

text \<open>
  The example of the specification: global \<^verbatim>\<open>{"A":"1"}\<close>, resource
  \<^verbatim>\<open>{"A":"2","B":"3"}\<close>, request \<^verbatim>\<open>{"B":"4"}\<close> give
  \<^verbatim>\<open>{"A":"2","B":"4"}\<close>.  With the further global header \<^verbatim>\<open>G\<close> and a
  string route, \<^verbatim>\<open>G\<close> reaches the request and the transport, \<^verbatim>\<open>A\<close> is
  the resource's.
\<close>

theorem effective_headers_examples:
  "(\<exists>(request0 :: (header_map, string, ex_obj, string) request) hs request1 request2 fc.
      initialRequest ex_base
         (global_layer (Some (ex_options\<lparr>o_headers := Some [''A'' \<mapsto> ''1'']\<rparr>)))
         (resource_layer (ex_resource\<lparr>rc_headers := Some [''A'' \<mapsto> ''2'', ''B'' \<mapsto> ''3'']\<rparr>))
         (StructuredRoute ((descriptor ''/x'')\<lparr>d_headers := Some [''B'' \<mapsto> ''4'']\<rparr>))
        = Inr request0
      \<and> prepareCall (ex_platform ''ok'') ex_store ex_base
           (Some (ex_options\<lparr>o_headers := Some [''A'' \<mapsto> ''1'']\<rparr>))
           (ex_resource\<lparr>rc_headers := Some [''A'' \<mapsto> ''2'', ''B'' \<mapsto> ''3'']\<rparr>)
           (StructuredRoute ((descriptor ''/x'')\<lparr>d_headers := Some [''B'' \<mapsto> ''4'']\<rparr>))
          = Inr (hs, request1, request2, fc)
      \<and> hs = []
      \<and> headers request0 = Some [''A'' \<mapsto> ''2'', ''B'' \<mapsto> ''4'']
      \<and> f_headers fc = Some [''A'' \<mapsto> ''2'', ''B'' \<mapsto> ''4''])
   \<and> (\<exists>(request0 :: (header_map, string, ex_obj, string) request) hs request1 request2 fc.
      initialRequest ex_base
         (global_layer (Some (ex_options\<lparr>o_headers := Some [''A'' \<mapsto> ''1'', ''G'' \<mapsto> ''0'']\<rparr>)))
         (resource_layer (ex_resource\<lparr>rc_headers := Some [''A'' \<mapsto> ''2'', ''B'' \<mapsto> ''3'']\<rparr>))
         (StringRoute ''/x'')
        = Inr request0
      \<and> prepareCall (ex_platform ''ok'') ex_store ex_base
           (Some (ex_options\<lparr>o_headers := Some [''A'' \<mapsto> ''1'', ''G'' \<mapsto> ''0'']\<rparr>))
           (ex_resource\<lparr>rc_headers := Some [''A'' \<mapsto> ''2'', ''B'' \<mapsto> ''3'']\<rparr>)
           (StringRoute ''/x'')
          = Inr (hs, request1, request2, fc)
      \<and> hs = []
      \<and> headers request0 = Some [''G'' \<mapsto> ''0'', ''A'' \<mapsto> ''2'', ''B'' \<mapsto> ''3'']
      \<and> f_headers fc = Some [''G'' \<mapsto> ''0'', ''A'' \<mapsto> ''2'', ''B'' \<mapsto> ''3''])"
proof -
  let ?P = "ex_platform ''ok''"
  have one: "\<exists>(request0 :: (header_map, string, ex_obj, string) request) hs request1 request2 fc.
      initialRequest ex_base
         (global_layer (Some (ex_options\<lparr>o_headers := Some [''A'' \<mapsto> ''1'']\<rparr>)))
         (resource_layer (ex_resource\<lparr>rc_headers := Some [''A'' \<mapsto> ''2'', ''B'' \<mapsto> ''3'']\<rparr>))
         (StructuredRoute ((descriptor ''/x'')\<lparr>d_headers := Some [''B'' \<mapsto> ''4'']\<rparr>))
        = Inr request0
      \<and> prepareCall ?P ex_store ex_base
           (Some (ex_options\<lparr>o_headers := Some [''A'' \<mapsto> ''1'']\<rparr>))
           (ex_resource\<lparr>rc_headers := Some [''A'' \<mapsto> ''2'', ''B'' \<mapsto> ''3'']\<rparr>)
           (StructuredRoute ((descriptor ''/x'')\<lparr>d_headers := Some [''B'' \<mapsto> ''4'']\<rparr>))
          = Inr (hs, request1, request2, fc)
      \<and> hs = []
      \<and> headers request0 = Some [''A'' \<mapsto> ''2'', ''B'' \<mapsto> ''4'']
      \<and> f_headers fc = Some [''A'' \<mapsto> ''2'', ''B'' \<mapsto> ''4'']"
  proof -
    let ?o = "Some (ex_options\<lparr>o_headers := Some [''A'' \<mapsto> ''1'']\<rparr>)"
    let ?r = "ex_resource\<lparr>rc_headers := Some [''A'' \<mapsto> ''2'', ''B'' \<mapsto> ''3'']\<rparr>"
    let ?d = "StructuredRoute ((descriptor ''/x'')\<lparr>d_headers := Some [''B'' \<mapsto> ''4'']\<rparr>)"
    have "\<exists>(request0 :: (header_map, string, ex_obj, string) request) request1 request2 fc.
        initialRequest ex_base (global_layer ?o) (resource_layer ?r) ?d = Inr request0
        \<and> prepareCall ?P ex_store ex_base ?o ?r ?d = Inr ([], request1, request2, fc)"
      by (simp add: ex_defs code_defs)
    then obtain request0 :: "(header_map, string, ex_obj, string) request" and request1 request2 fc
      where i: "initialRequest ex_base (global_layer ?o) (resource_layer ?r) ?d = Inr request0"
        and p: "prepareCall ?P ex_store ex_base ?o ?r ?d = Inr ([], request1, request2, fc)"
      by blast
    have m: "[''A'' \<mapsto> ''1''] ++ [''A'' \<mapsto> ''2'', ''B'' \<mapsto> ''3''] ++ [''B'' \<mapsto> ''4'']
               = [''A'' \<mapsto> ''2'', ''B'' \<mapsto> ''4'']"
      by (auto simp: fun_eq_iff map_add_def)
    from effective_headers_layered[OF i, of ?P ex_store] p
    have "headers request0 = Some [''A'' \<mapsto> ''2'', ''B'' \<mapsto> ''4'']
          \<and> f_headers fc = Some [''A'' \<mapsto> ''2'', ''B'' \<mapsto> ''4'']"
      unfolding Let_def
      by (simp add: descriptor_def ex_resource_def ex_options_def m)
    with i p show ?thesis by blast
  qed
  have two: "\<exists>(request0 :: (header_map, string, ex_obj, string) request) hs request1 request2 fc.
      initialRequest ex_base
         (global_layer (Some (ex_options\<lparr>o_headers := Some [''A'' \<mapsto> ''1'', ''G'' \<mapsto> ''0'']\<rparr>)))
         (resource_layer (ex_resource\<lparr>rc_headers := Some [''A'' \<mapsto> ''2'', ''B'' \<mapsto> ''3'']\<rparr>))
         (StringRoute ''/x'')
        = Inr request0
      \<and> prepareCall ?P ex_store ex_base
           (Some (ex_options\<lparr>o_headers := Some [''A'' \<mapsto> ''1'', ''G'' \<mapsto> ''0'']\<rparr>))
           (ex_resource\<lparr>rc_headers := Some [''A'' \<mapsto> ''2'', ''B'' \<mapsto> ''3'']\<rparr>)
           (StringRoute ''/x'')
          = Inr (hs, request1, request2, fc)
      \<and> hs = []
      \<and> headers request0 = Some [''G'' \<mapsto> ''0'', ''A'' \<mapsto> ''2'', ''B'' \<mapsto> ''3'']
      \<and> f_headers fc = Some [''G'' \<mapsto> ''0'', ''A'' \<mapsto> ''2'', ''B'' \<mapsto> ''3'']"
  proof -
    let ?o = "Some (ex_options\<lparr>o_headers := Some [''A'' \<mapsto> ''1'', ''G'' \<mapsto> ''0'']\<rparr>)"
    let ?r = "ex_resource\<lparr>rc_headers := Some [''A'' \<mapsto> ''2'', ''B'' \<mapsto> ''3'']\<rparr>"
    let ?d = "StringRoute ''/x'' :: ex_obj route_result"
    have "\<exists>(request0 :: (header_map, string, ex_obj, string) request) request1 request2 fc.
        initialRequest ex_base (global_layer ?o) (resource_layer ?r) ?d = Inr request0
        \<and> prepareCall ?P ex_store ex_base ?o ?r ?d = Inr ([], request1, request2, fc)"
      by (simp add: ex_defs code_defs)
    then obtain request0 :: "(header_map, string, ex_obj, string) request" and request1 request2 fc
      where i: "initialRequest ex_base (global_layer ?o) (resource_layer ?r) ?d = Inr request0"
        and p: "prepareCall ?P ex_store ex_base ?o ?r ?d = Inr ([], request1, request2, fc)"
      by blast
    have m: "[''A'' \<mapsto> ''1'', ''G'' \<mapsto> ''0''] ++ [''A'' \<mapsto> ''2'', ''B'' \<mapsto> ''3''] ++ Map.empty
               = [''G'' \<mapsto> ''0'', ''A'' \<mapsto> ''2'', ''B'' \<mapsto> ''3'']"
      by (auto simp: fun_eq_iff map_add_def)
    from effective_headers_layered[OF i, of ?P ex_store] p
    have "headers request0 = Some [''G'' \<mapsto> ''0'', ''A'' \<mapsto> ''2'', ''B'' \<mapsto> ''3'']
          \<and> f_headers fc = Some [''G'' \<mapsto> ''0'', ''A'' \<mapsto> ''2'', ''B'' \<mapsto> ''3'']"
      unfolding Let_def
      by (simp add: ex_resource_def ex_options_def m[simplified])
    with i p show ?thesis by blast
  qed
  from one two show ?thesis by blast
qed

text \<open>Keys that differ in case only are different keys.\<close>

lemma header_keys_compared_as_written:
  "resourceStandardHeaders
       \<lparr> l_hooks = [], l_headers = [''content-type'' \<mapsto> ''text/plain''], l_timeout = None \<rparr>
       \<lparr> l_hooks = [], l_headers = [''Content-Type'' \<mapsto> ''application/json''], l_timeout = None \<rparr>
     = [''content-type'' \<mapsto> ''text/plain'', ''Content-Type'' \<mapsto> ''application/json'']"
  by (simp add: resourceStandardHeaders_def)

section \<open>The hook pipeline: properties\<close>









lemma runBeforeRequest_cong:
  "\<forall>h \<in> set hs. store' h = store h \<Longrightarrow>
     runBeforeRequest store' hs request = runBeforeRequest store hs request"
  by (induction hs arbitrary: request) (auto split: option.splits sum.splits)

lemma runAfterRequest_cong:
  "\<forall>h \<in> set hs. store' h = store h \<Longrightarrow>
     runAfterRequest store' hs request res = runAfterRequest store hs request res"
  by (induction hs arbitrary: res) (auto split: option.splits sum.splits)



text \<open>
  Claim C10 (hooks fixed at the start of a call): the hooks a call runs are those of the
  list built from the global hooks, the resource hooks and the hooks of the initial
  request.  What any other hook reference denotes, in particular one that a
  \<^verbatim>\<open>beforeRequest\<close> hook puts into the request it returns, has no influence on the
  call: such a hook is run in neither phase.
\<close>

theorem hooks_fixed_at_call_start:
  fixes plat :: "('e, 'o, 'd) platform"
    and request0 :: "(header_map, 'e, 'o, 'd) request"
  assumes "initialRequest base (global_layer options) (resource_layer resource) result = Inr request0"
      and "\<forall>h \<in> set (l_hooks (global_layer options) @ l_hooks (resource_layer resource)
                        @ orElse (hooks request0) []). store' h = store h"
  shows "call plat store' base options resource result = call plat store base options resource result"
proof -
  let ?hs = "callHooks (global_layer options) (resource_layer resource) request0"
  have agree: "\<forall>h \<in> set ?hs. store' h = store h"
    using assms(2) by (simp add: callHooks_def)
  have prep: "prepareCall plat store' base options resource result
                = prepareCall plat store base options resource result"
    unfolding prepareCall_hooks[OF assms(1), of plat store']
      prepareCall_hooks[OF assms(1), of plat store]
      runBeforeRequest_cong[OF agree]
    by (rule refl)
  show ?thesis
  proof (cases "prepareCall plat store base options resource result")
    case (Inl err)
    with prep show ?thesis by (simp add: call_def)
  next
    case (Inr t)
    obtain hs request1 request2 fc where t: "t = (hs, request1, request2, fc)"
      by (cases t) auto
    have "hs = ?hs"
      using Inr t by (auto simp: prepareCall_hooks[OF assms(1)] split: sum.splits)
    with agree have "runAfterRequest store' hs request2 res = runAfterRequest store hs request2 res" for res
      by (simp add: runAfterRequest_cong)
    with prep Inr t show ?thesis
      by (simp add: call_def handleResponse_def split: sum.splits)
  qed
qed

text \<open>
  Hook 4 returns a request that carries hook 5, which would change the method and the
  data; the call is the same whether hook 5 is that hook or does nothing, and its data is
  the decoded response.
\<close>

theorem hooks_fixed_at_call_start_example:
  "\<exists>(request0 :: (header_map, string, ex_obj, string) request) request'.
     initialRequest ex_base (global_layer (Some (ex_options\<lparr>o_hooks := Some [4]\<rparr>)))
         (resource_layer ex_resource) (StringRoute ''/users'') = Inr request0
     \<and> l_hooks (global_layer (Some (ex_options\<lparr>o_hooks := Some [4]\<rparr>)))
         @ l_hooks (resource_layer ex_resource) @ orElse (hooks request0) [] = [4]
     \<and> (ex_store(5 := no_hook)) 4 = ex_store 4
     \<and> runBeforeRequest ex_store [4] request0 = Inr request'
     \<and> hooks request' = Some [5]
     \<and> call (ex_platform ''ok'') (ex_store(5 := no_hook)) ex_base
          (Some (ex_options\<lparr>o_hooks := Some [4]\<rparr>)) ex_resource (StringRoute ''/users'')
        = call (ex_platform ''ok'') ex_store ex_base
          (Some (ex_options\<lparr>o_hooks := Some [4]\<rparr>)) ex_resource (StringRoute ''/users'')
     \<and> call (ex_platform ''ok'') ex_store ex_base
          (Some (ex_options\<lparr>o_hooks := Some [4]\<rparr>)) ex_resource (StringRoute ''/users'')
        = Inr \<lparr> res_headers = Map.empty, statusCode = 200, data = ''ok'' \<rparr>"
proof -
  let ?o = "Some (ex_options\<lparr>o_hooks := Some [4]\<rparr>)"
  have "\<exists>(request0 :: (header_map, string, ex_obj, string) request) request'.
          initialRequest ex_base (global_layer ?o) (resource_layer ex_resource) (StringRoute ''/users'')
            = Inr request0
          \<and> l_hooks (global_layer ?o) @ l_hooks (resource_layer ex_resource)
               @ orElse (hooks request0) [] = [4]
          \<and> runBeforeRequest ex_store [4] request0 = Inr request'
          \<and> hooks request' = Some [5]"
    by (simp add: ex_defs code_defs)
  then obtain request0 :: "(header_map, string, ex_obj, string) request" and request'
    where h: "initialRequest ex_base (global_layer ?o) (resource_layer ex_resource) (StringRoute ''/users'')
            = Inr request0"
      and l: "l_hooks (global_layer ?o) @ l_hooks (resource_layer ex_resource)
               @ orElse (hooks request0) [] = [4]"
      and r: "runBeforeRequest ex_store [4] request0 = Inr request'" "hooks request' = Some [5]"
    by blast
  have agree: "\<forall>h \<in> set (l_hooks (global_layer ?o) @ l_hooks (resource_layer ex_resource)
               @ orElse (hooks request0) []). (ex_store(5 := no_hook)) h = ex_store h"
    unfolding l by simp
  have s: "(ex_store(5 := no_hook)) 4 = ex_store 4" by simp
  have c: "call (ex_platform ''ok'') ex_store ex_base ?o ex_resource (StringRoute ''/users'')
        = Inr \<lparr> res_headers = Map.empty, statusCode = 200, data = ''ok'' \<rparr>"
    by (simp add: ex_defs code_defs)
  from hooks_fixed_at_call_start[OF h agree, of "ex_platform ''ok''"] h l s r c
  show ?thesis by blast
qed

section \<open>merge: properties\<close>

lemma wf_heap_headers_ref:
  assumes "wf_heap hp" and "lookup hp this = Some (RequestObj r)" and "headers r = Some a"
  shows "\<exists>m. lookup hp a = Some (HeadersObj m)"
proof -
  have lt: "this < length hp" and eq: "hp ! this = RequestObj r"
    using assms(2) by (simp_all add: lookup_def split: if_splits)
  from nth_mem[OF lt] eq have "RequestObj r \<in> set hp" by simp
  with assms(1) have "case headers r of None \<Rightarrow> True
      | Some a \<Rightarrow> (case lookup hp a of Some (HeadersObj m) \<Rightarrow> True | _ \<Rightarrow> False)"
    unfolding wf_heap_def list_all_iff by fastforce
  with assms(3) show ?thesis
    by (cases "lookup hp a") (auto split: obj.splits)
qed


lemma orElse_simps:
  "orElse None b = b"
  "orElse (Some x) b = x"
  by (simp_all add: orElse_def)

lemma mergeObjects_request_sel:
  "method_name (mergeObjects_request a b) = orElse (p_method b) (method_name a)"
  "path (mergeObjects_request a b) = orElse (p_path b) (path a)"
  "baseUrl (mergeObjects_request a b) = orElse (p_baseUrl b) (baseUrl a)"
  "headers (mergeObjects_request a b) = orElse (p_headers b) (headers a)"
  "queryParameters (mergeObjects_request a b) = orElse (p_queryParameters b) (queryParameters a)"
  "body (mergeObjects_request a b) = orElse (p_body b) (body a)"
  "encoder (mergeObjects_request a b) = orElse (p_encoder b) (encoder a)"
  "decoder (mergeObjects_request a b) = orElse (p_decoder b) (decoder a)"
  "timeout (mergeObjects_request a b) = orElse (p_timeout b) (timeout a)"
  "abortSignal (mergeObjects_request a b) = orElse (p_abortSignal b) (abortSignal a)"
  "hooks (mergeObjects_request a b) = orElse (p_hooks b) (hooks a)"
  "route (mergeObjects_request a b) = orElse (p_route b) (route a)"
  by (simp_all add: mergeObjects_request_def)

lemma merge_cases:
  "merge r p =
     (let n = mergeObjects_request r p;
          n1 = (case p_headers p of
                  Some (Some h) \<Rightarrow> n\<lparr>headers := Some (mergeObjects (headers r) (Some h))\<rparr>
                | _ \<Rightarrow> n)
      in case p_hooks p of
           Some (Some hs) \<Rightarrow> n1\<lparr>hooks := Some (mergeObjects_hooks (hooks r) hs)\<rparr>
         | _ \<Rightarrow> n1)"
  by (simp add: merge_def Let_def)

lemma merge_closed_form:
  "merge r p =
     (mergeObjects_request r p)
       \<lparr> headers :=
           (case p_headers p of
              None \<Rightarrow> headers r
            | Some None \<Rightarrow> None
            | Some (Some h) \<Rightarrow> Some (orElse (headers r) Map.empty ++ h)),
         hooks :=
           (case p_hooks p of
              None \<Rightarrow> hooks r
            | Some None \<Rightarrow> None
            | Some (Some hs) \<Rightarrow> Some (hs @ drop (length hs) (orElse (hooks r) []))) \<rparr>"
proof (cases "p_hooks p")
  case None
  then show ?thesis
    by (cases "p_headers p"; cases "the (p_headers p)")
       (simp_all add: merge_cases mergeObjects_request_def orElse_simps mergeObjects_def
          mergeObjects_hooks_def)
next
  case (Some hk)
  then show ?thesis
    by (cases hk; cases "p_headers p"; cases "the (p_headers p)")
       (simp_all add: merge_cases mergeObjects_request_def orElse_simps mergeObjects_def
          mergeObjects_hooks_def)
qed

lemma merge_fields:
  "headers (merge r p) =
     (case p_headers p of
        None \<Rightarrow> headers r
      | Some None \<Rightarrow> None
      | Some (Some h) \<Rightarrow> Some (orElse (headers r) Map.empty ++ h))"
  "hooks (merge r p) =
     (case p_hooks p of
        None \<Rightarrow> hooks r
      | Some None \<Rightarrow> None
      | Some (Some hs) \<Rightarrow> Some (hs @ drop (length hs) (orElse (hooks r) [])))"
  "method_name (merge r p) = orElse (p_method p) (method_name r)"
  "path (merge r p) = orElse (p_path p) (path r)"
  "baseUrl (merge r p) = orElse (p_baseUrl p) (baseUrl r)"
  "queryParameters (merge r p) = orElse (p_queryParameters p) (queryParameters r)"
  "body (merge r p) = orElse (p_body p) (body r)"
  "encoder (merge r p) = orElse (p_encoder p) (encoder r)"
  "decoder (merge r p) = orElse (p_decoder p) (decoder r)"
  "timeout (merge r p) = orElse (p_timeout p) (timeout r)"
  "abortSignal (merge r p) = orElse (p_abortSignal p) (abortSignal r)"
  "route (merge r p) = orElse (p_route p) (route r)"
  by (simp_all add: merge_closed_form mergeObjects_request_sel)

lemma lookup_append_old: "a < length hp \<Longrightarrow> lookup (hp @ xs) a = lookup hp a"
  by (simp add: lookup_def nth_append)

lemma lookup_Some_less: "lookup hp a = Some ob \<Longrightarrow> a < length hp"
  by (simp add: lookup_def split: if_splits)

lemma headersAt_append:
  assumes "\<And>a. r = Some a \<Longrightarrow> a < length hp"
  shows "headersAt (hp @ xs) r = headersAt hp r"
  using assms by (cases r) (simp_all add: headersAt_def lookup_append_old)

lemma headersAt_alloc_request:
  "headersAt (hp @ [RequestObj x]) ref = headersAt hp ref"
  by (cases ref) (auto simp: headersAt_def lookup_def nth_append)

lemma lookup_alloc: "lookup (hp @ ob # obs) (length hp) = Some ob"
  by (simp add: lookup_def)

lemma assignField_alloc:
  "assignField (hp @ RequestObj x # obs) (length hp) f = hp @ RequestObj (f x) # obs"
  by (simp add: assignField_def lookup_alloc list_update_append)

text \<open>The objects a merge allocates, in order: the new request, then the new headers object if any.\<close>

lemma merge_heap_closed_form:
  assumes "lookup hp this = Some (RequestObj r)"
  shows "merge_heap hp this p =
           Some (hp @
                 (let k = (case p_hooks p of
                             Some (Some hs) \<Rightarrow> Some (mergeObjects_hooks (hooks r) hs)
                           | _ \<Rightarrow> hooks (mergeObjects_request r p))
                  in case p_headers p of
                       Some (Some ph) \<Rightarrow>
                         [RequestObj ((mergeObjects_request r p)
                                        \<lparr>headers := Some (Suc (length hp)), hooks := k\<rparr>),
                          HeadersObj (mergeObjects (headersAt hp (headers r)) (headersAt hp (Some ph)))]
                     | _ \<Rightarrow> [RequestObj ((mergeObjects_request r p)\<lparr>hooks := k\<rparr>)]),
                 length hp)"
proof (cases "p_hooks p")
  case None
  then show ?thesis
    using assms
    by (cases "p_headers p"; cases "the (p_headers p)")
       (simp_all add: merge_heap_def alloc_def headersAt_alloc_request assignField_alloc)
next
  case (Some hk)
  then show ?thesis
    using assms
    by (cases hk; cases "p_headers p"; cases "the (p_headers p)")
       (simp_all add: merge_heap_def alloc_def headersAt_alloc_request assignField_alloc)
qed

lemma merge_heap_frame:
  assumes "lookup hp this = Some (RequestObj r)"
  shows "\<exists>hp'. merge_heap hp this p = Some (hp', length hp) \<and> take (length hp) hp' = hp"
  unfolding merge_heap_closed_form[OF assms] by simp

lemma requestAt_request:
  "lookup hp a = Some (RequestObj r) \<Longrightarrow>
     requestAt hp a =
       Some \<lparr> method_name = method_name r, path = path r, baseUrl = baseUrl r,
              headers = headersAt hp (headers r),
              queryParameters = queryParameters r, body = body r,
              encoder = encoder r, decoder = decoder r, timeout = timeout r,
              abortSignal = abortSignal r, hooks = hooks r, route = route r \<rparr>"
  by (simp add: requestAt_def)

lemma headersAt_new: "headersAt (hp @ [ob, HeadersObj m]) (Some (Suc (length hp))) = Some m"
  by (simp add: headersAt_def lookup_def nth_append)

lemma merge_heap_simulates:
  assumes recv: "lookup hp this = Some (RequestObj r)"
      and ok: "partial_ok hp p"
      and res: "merge_heap hp this p = Some (hp', n)"
      and rv: "requestAt hp this = Some rv"
  shows "requestAt hp' n = Some (merge rv (partialAt hp p))"
proof -
  have rv_eq: "rv = \<lparr> method_name = method_name r, path = path r, baseUrl = baseUrl r,
                 headers = headersAt hp (headers r),
                 queryParameters = queryParameters r, body = body r,
                 encoder = encoder r, decoder = decoder r, timeout = timeout r,
                 abortSignal = abortSignal r, hooks = hooks r, route = route r \<rparr>"
    using rv requestAt_request[OF recv] by simp
  note cf = res[unfolded merge_heap_closed_form[OF recv]]
  show ?thesis
  proof (cases "p_headers p")
    case None
    with cf have hp': "hp' = hp @ [RequestObj ((mergeObjects_request r p)\<lparr>hooks :=
                          (case p_hooks p of
                             Some (Some hs) \<Rightarrow> Some (mergeObjects_hooks (hooks r) hs)
                           | _ \<Rightarrow> hooks (mergeObjects_request r p))\<rparr>)]"
      and n: "n = length hp"
      by auto
    show ?thesis
      unfolding hp' n rv_eq merge_closed_form
      using None
      by (cases "p_hooks p"; cases "the (p_hooks p)")
         (simp_all add: requestAt_def lookup_alloc headersAt_alloc_request partialAt_def
            mergeObjects_request_def orElse_simps mergeObjects_hooks_def)
  next
    case (Some ph)
    show ?thesis
    proof (cases ph)
      case None
      with Some cf have hp': "hp' = hp @ [RequestObj ((mergeObjects_request r p)\<lparr>hooks :=
                          (case p_hooks p of
                             Some (Some hs) \<Rightarrow> Some (mergeObjects_hooks (hooks r) hs)
                           | _ \<Rightarrow> hooks (mergeObjects_request r p))\<rparr>)]"
        and n: "n = length hp"
        by auto
      show ?thesis
        unfolding hp' n rv_eq merge_closed_form
        using None Some
        by (cases "p_hooks p"; cases "the (p_hooks p)")
           (simp_all add: requestAt_def lookup_alloc headersAt_alloc_request partialAt_def
              mergeObjects_request_def orElse_simps mergeObjects_hooks_def headersAt_def)
    next
      case (Some a)
      with ok \<open>p_headers p = Some ph\<close> obtain m where m: "lookup hp a = Some (HeadersObj m)"
        by (cases "lookup hp a") (auto simp: partial_ok_def split: obj.splits)
      then have pm: "headersAt hp (Some a) = Some m"
        by (simp add: headersAt_def)
      from Some \<open>p_headers p = Some ph\<close> cf
      have hp': "hp' = hp @ [RequestObj ((mergeObjects_request r p)
                                        \<lparr>headers := Some (Suc (length hp)), hooks :=
                          (case p_hooks p of
                             Some (Some hs) \<Rightarrow> Some (mergeObjects_hooks (hooks r) hs)
                           | _ \<Rightarrow> hooks (mergeObjects_request r p))\<rparr>),
                          HeadersObj (mergeObjects (headersAt hp (headers r)) (headersAt hp (Some a)))]"
        and n: "n = length hp"
        by auto
      show ?thesis
        unfolding hp' n rv_eq merge_closed_form
        using Some \<open>p_headers p = Some ph\<close> pm
        by (cases "p_hooks p"; cases "the (p_hooks p)")
           (simp_all add: requestAt_def lookup_alloc headersAt_new partialAt_def
              mergeObjects_request_def orElse_simps mergeObjects_hooks_def mergeObjects_def)
    qed
  qed
qed

lemma merge_heap_extends:
  assumes "lookup hp this = Some (RequestObj r)"
  shows "\<exists>xs. merge_heap hp this p = Some (hp @ xs, length hp)"
  unfolding merge_heap_closed_form[OF assms] by simp

lemma requestAt_extend:
  assumes "wf_heap hp" and "lookup hp this = Some (RequestObj r)"
  shows "requestAt (hp @ xs) this = requestAt hp this"
proof -
  have lt: "this < length hp" using assms(2) by (rule lookup_Some_less)
  have "\<And>a. headers r = Some a \<Longrightarrow> a < length hp"
    using wf_heap_headers_ref[OF assms] lookup_Some_less by blast
  then have "headersAt (hp @ xs) (headers r) = headersAt hp (headers r)"
    by (rule headersAt_append)
  with assms(2) lt show ?thesis
    by (simp add: requestAt_def lookup_append_old)
qed

text \<open>
  Claim C8 (merge), as the code has it: \<^verbatim>\<open>r.merge(p)\<close> returns a request object
  at a new address and changes no object that existed before, so that the receiver, its
  headers mapping included, reads as it did.  The new request has, when \<open>p\<close> holds a
  headers mapping, the union of the headers of \<open>r\<close> and of \<open>p\<close> with the entries of
  \<open>p\<close> winning; when \<open>p\<close> holds hooks, the hooks of \<open>p\<close> followed by the hooks of
  \<open>r\<close> beyond their number (the union by index, not the hooks of \<open>p\<close> alone); and for
  every other key present in \<open>p\<close> the value \<open>p\<close> has for it, the remaining fields being
  those of \<open>r\<close>.
\<close>

theorem merge_builds_new_request_and_leaves_heap:
  assumes "wf_heap hp"
      and "lookup hp this = Some (RequestObj r)"
      and "partial_ok hp p"
  shows "\<exists>hp' rv.
           merge_heap hp this p = Some (hp', length hp)
           \<and> lookup hp (length hp) = None
           \<and> take (length hp) hp' = hp
           \<and> requestAt hp this = Some rv
           \<and> requestAt hp' this = Some rv
           \<and> requestAt hp' (length hp) = Some (merge rv (partialAt hp p))
           \<and> headers (merge rv (partialAt hp p)) =
               (case p_headers (partialAt hp p) of
                  None \<Rightarrow> headers rv
                | Some None \<Rightarrow> None
                | Some (Some h) \<Rightarrow> Some (orElse (headers rv) Map.empty ++ h))
           \<and> hooks (merge rv (partialAt hp p)) =
               (case p_hooks p of
                  None \<Rightarrow> hooks rv
                | Some None \<Rightarrow> None
                | Some (Some hs) \<Rightarrow> Some (hs @ drop (length hs) (orElse (hooks rv) [])))
           \<and> method_name (merge rv (partialAt hp p)) = orElse (p_method p) (method_name rv)
           \<and> path (merge rv (partialAt hp p)) = orElse (p_path p) (path rv)
           \<and> baseUrl (merge rv (partialAt hp p)) = orElse (p_baseUrl p) (baseUrl rv)
           \<and> queryParameters (merge rv (partialAt hp p))
               = orElse (p_queryParameters p) (queryParameters rv)
           \<and> body (merge rv (partialAt hp p)) = orElse (p_body p) (body rv)
           \<and> encoder (merge rv (partialAt hp p)) = orElse (p_encoder p) (encoder rv)
           \<and> decoder (merge rv (partialAt hp p)) = orElse (p_decoder p) (decoder rv)
           \<and> timeout (merge rv (partialAt hp p)) = orElse (p_timeout p) (timeout rv)
           \<and> abortSignal (merge rv (partialAt hp p)) = orElse (p_abortSignal p) (abortSignal rv)
           \<and> route (merge rv (partialAt hp p)) = orElse (p_route p) (route rv)"
proof -
  obtain xs where m: "merge_heap hp this p = Some (hp @ xs, length hp)"
    using merge_heap_extends[OF assms(2)] by blast
  obtain rv where rv: "requestAt hp this = Some rv"
    using requestAt_request[OF assms(2)] by blast
  have fresh: "lookup hp (length hp) = None" by (simp add: lookup_def)
  have frame: "take (length hp) (hp @ xs) = hp" by simp
  have same: "requestAt (hp @ xs) this = Some rv"
    using requestAt_extend[OF assms(1,2)] rv by simp
  have new: "requestAt (hp @ xs) (length hp) = Some (merge rv (partialAt hp p))"
    by (rule merge_heap_simulates[OF assms(2,3) m rv])
  have sel: "p_hooks (partialAt hp p) = p_hooks p" "p_method (partialAt hp p) = p_method p"
    "p_path (partialAt hp p) = p_path p" "p_baseUrl (partialAt hp p) = p_baseUrl p"
    "p_queryParameters (partialAt hp p) = p_queryParameters p" "p_body (partialAt hp p) = p_body p"
    "p_encoder (partialAt hp p) = p_encoder p" "p_decoder (partialAt hp p) = p_decoder p"
    "p_timeout (partialAt hp p) = p_timeout p" "p_abortSignal (partialAt hp p) = p_abortSignal p"
    "p_route (partialAt hp p) = p_route p"
    by (simp_all add: partialAt_def)
  note f = merge_fields[of rv "partialAt hp p", unfolded sel]
  from m fresh frame rv same new f show ?thesis by blast
qed

text \<open>
  A receiver with the headers \<^verbatim>\<open>{"A":"1"}\<close> and the hooks 1 and 2, merged with
  the headers \<^verbatim>\<open>{"X":"1"}\<close> and the hook 3.
\<close>

theorem merge_example:
  "wf_heap ex_heap
   \<and> lookup ex_heap 1 = Some (RequestObj (ex_request\<lparr>headers := Some 0\<rparr>))
   \<and> partial_ok ex_heap ex_partial
   \<and> (\<exists>hp'. merge_heap ex_heap 1 ex_partial = Some (hp', 3)
         \<and> take 3 hp' = ex_heap
         \<and> requestAt hp' 1 = Some (ex_request\<lparr>headers := Some [''A'' \<mapsto> ''1'']\<rparr>)
         \<and> requestAt hp' 3 =
             Some (ex_request\<lparr>headers := Some [''A'' \<mapsto> ''1'', ''X'' \<mapsto> ''1''],
                               hooks := Some [3, 2]\<rparr>))"
proof -
  have h1: "wf_heap ex_heap"
    by (simp add: wf_heap_def ex_heap_def lookup_def ex_request_def)
  have h2: "lookup ex_heap 1 = Some (RequestObj (ex_request\<lparr>headers := Some 0\<rparr>))"
    by (simp add: ex_heap_def lookup_def)
  have h3: "partial_ok ex_heap ex_partial"
    by (simp add: partial_ok_def ex_partial_def no_fields_def ex_heap_def lookup_def)
  have len: "length ex_heap = 3" by (simp add: ex_heap_def)
  have rv: "requestAt ex_heap 1 = Some (ex_request\<lparr>headers := Some [''A'' \<mapsto> ''1'']\<rparr>)"
    by (simp add: requestAt_def ex_heap_def lookup_def headersAt_def ex_request_def)
  have mv: "merge (ex_request\<lparr>headers := Some [''A'' \<mapsto> ''1'']\<rparr>) (partialAt ex_heap ex_partial)
              = ex_request\<lparr>headers := Some [''A'' \<mapsto> ''1'', ''X'' \<mapsto> ''1''], hooks := Some [3, 2]\<rparr>"
    by (simp add: merge_closed_form partialAt_def ex_partial_def no_fields_def ex_heap_def
        headersAt_def lookup_def mergeObjects_request_def ex_request_def orElse_simps)
  from merge_builds_new_request_and_leaves_heap[OF h1 h2 h3]
  obtain hp' rv' where c: "merge_heap ex_heap 1 ex_partial = Some (hp', length ex_heap)"
      "take (length ex_heap) hp' = ex_heap"
      "requestAt ex_heap 1 = Some rv'" "requestAt hp' 1 = Some rv'"
      "requestAt hp' (length ex_heap) = Some (merge rv' (partialAt ex_heap ex_partial))"
    by blast
  from c(3) rv have "rv' = ex_request\<lparr>headers := Some [''A'' \<mapsto> ''1'']\<rparr>" by simp
  with c mv len have "merge_heap ex_heap 1 ex_partial = Some (hp', 3)
         \<and> take 3 hp' = ex_heap
         \<and> requestAt hp' 1 = Some (ex_request\<lparr>headers := Some [''A'' \<mapsto> ''1'']\<rparr>)
         \<and> requestAt hp' 3 =
             Some (ex_request\<lparr>headers := Some [''A'' \<mapsto> ''1'', ''X'' \<mapsto> ''1''],
                               hooks := Some [3, 2]\<rparr>)"
    by simp
  with h1 h2 h3 show ?thesis by blast
qed

text \<open>
  The claim as stated, that every field of \<open>p\<close> other than the headers replaces the
  field of \<open>r\<close> wholesale, fails for the hooks: merging the hooks 1, 2 with the hook 3
  gives the hooks 3, 2.
\<close>

theorem merge_hooks_are_not_replaced_wholesale:
  "hooks (ex_request :: (header_map, string, ex_obj, string) request) = Some [1, 2]
   \<and> hooks (merge ex_request (no_fields\<lparr>p_hooks := Some (Some [3])\<rparr>)) = Some [3, 2]
   \<and> hooks (merge ex_request (no_fields\<lparr>p_hooks := Some (Some [3])\<rparr>)) \<noteq> Some [3]"
  by (simp add: merge_fields ex_request_def no_fields_def orElse_simps)


section \<open>The automatic Content-Type step: the general case\<close>

text \<open>
  Whenever the step of lines 81 to 88 applies, the request it produces has the header and
  the headers handed to the transport, read at line 64, do not.
\<close>

lemma transport_headers_lack_automatic_content_type:
  assumes "transportCall plat resource request = Inr (request', fc)"
      and "orElse (encoder request) JSON_stringify = JSON_stringify"
      and "(case headers request of None \<Rightarrow> None | Some h \<Rightarrow> h ''Content-Type'') = None"
  shows "(case f_headers fc of None \<Rightarrow> None | Some h \<Rightarrow> h ''Content-Type'') = None"
    and "(case headers request' of None \<Rightarrow> None | Some h \<Rightarrow> h ''Content-Type'')
           = Some ''application/json''"
proof -
  show "(case f_headers fc of None \<Rightarrow> None | Some h \<Rightarrow> h ''Content-Type'') = None"
    using transportCall_fields(4)[OF assms(1)] assms(3) by simp
  have "request' = merge request
          (no_fields\<lparr>p_headers := Some (Some [''Content-Type'' \<mapsto> ''application/json''])\<rparr>)"
    using transportCall_fields(1)[OF assms(1)] assms(2,3) by (simp add: autoContentType_def)
  then show "(case headers request' of None \<Rightarrow> None | Some h \<Rightarrow> h ''Content-Type'')
           = Some ''application/json''"
    by (simp add: merge_fields no_fields_def)
qed

end
